theory Spec2Isabelle
  imports Main "HOL-Library.Word" "HOL-Library.AList"
begin

section \<open>Byte buffers\<close>

text \<open>
  A \<open>Uint8Array\<close> and the \<open>ArrayBuffer\<close> behind it are modelled by the list of their
  bytes (every typed array of \<^verbatim>\<open>jose-jwe-encrypt.js\<close> owns its whole buffer, so
  \<open>x.buffer\<close> holds the bytes of \<open>x\<close>). Lengths and the sizes of the configuration are
  natural numbers.
\<close>

type_synonym byte = "8 word"
type_synonym bytes = "byte list"

text \<open>
  \<open>ArrayBuffer.prototype.slice(begin, end)\<close>: a negative index counts from the end of the
  buffer, and both indices are clamped to the buffer.
\<close>

definition relative_index :: "int \<Rightarrow> nat \<Rightarrow> nat" where
  "relative_index i len =
     (if i < 0 then nat (max (int len + i) 0) else min (nat i) len)"

definition slice_buffer :: "bytes \<Rightarrow> int \<Rightarrow> int \<Rightarrow> bytes" where
  "slice_buffer buf b e =
     (let first = relative_index b (length buf);
          final = relative_index e (length buf)
      in take (final - first) (drop first buf))"

text \<open>\<open>buf.slice(begin)\<close>: the end defaults to the length of the buffer.\<close>

definition slice_from :: "bytes \<Rightarrow> int \<Rightarrow> bytes" where
  "slice_from buf b = slice_buffer buf b (int (length buf))"

text \<open>
  Reading \<open>a[i]\<close> from a \<open>Uint8Array\<close> and storing it into another one: an index
  past the end reads \<open>undefined\<close>, which a typed array stores as 0.
\<close>

definition u8_read :: "bytes \<Rightarrow> nat \<Rightarrow> byte" where
  "u8_read a i = (if i < length a then a ! i else 0)"

section \<open>Promises and the log of primitive invocations\<close>

text \<open>
  The rejection reasons of \<open>JoseJWE.prototype.encryptPlaintext\<close>, one constructor per
  string of the source:
  \<^item> \<open>InvalidIVLength\<close>: "encryptPlaintext: invalid IV length";
  \<^item> \<open>InvalidTagLength\<close>: "encryptPlaintext: invalid tag_length";
  \<^item> \<open>InvalidTruncatedLength\<close>: "encryptPlaintext: invalid truncated HMAC length";
  \<^item> \<open>IncorrectCekLength\<close>: "encryptPlaintext: incorrect cek length";
  \<^item> \<open>Failure\<close>: any reason a collaborator (the crypto provider, the cryptographer, the
    caller's promises) rejects with.
\<close>

datatype error =
    InvalidIVLength
  | InvalidTagLength
  | InvalidTruncatedLength
  | IncorrectCekLength
  | Failure string

text \<open>
  A promise is modelled by its outcome, \<open>Inl\<close> the rejection reason (every promise of a
  run is taken to settle). A computation that invokes primitives returns the log of its
  invocations beside the promise it yields.
\<close>

type_synonym 'a promise = "error + 'a"
type_synonym ('c, 'a) run = "'c list \<times> 'a promise"

definition resolved :: "'a \<Rightarrow> ('c, 'a) run" where
  "resolved v = ([], Inr v)"

definition rejected :: "error \<Rightarrow> ('c, 'a) run" where
  "rejected e = ([], Inl e)"

text \<open>
  \<open>p.then(f)\<close>: the callback runs only when \<open>p\<close> is fulfilled, and the new promise
  adopts what the callback returns; a rejection of \<open>p\<close> passes through, the callback
  and its primitives never run.
\<close>

definition then_run :: "'a promise \<Rightarrow> ('a \<Rightarrow> ('c, 'b) run) \<Rightarrow> ('c, 'b) run" where
  "then_run p f = (case p of Inl e \<Rightarrow> ([], Inl e) | Inr v \<Rightarrow> f v)"

text \<open>\<open>q.then(f)\<close> for a promise \<open>q\<close> that a primitive invocation returned.\<close>

definition and_then :: "('c, 'a) run \<Rightarrow> ('a \<Rightarrow> ('c, 'b) run) \<Rightarrow> ('c, 'b) run" where
  "and_then r f = (let (l, q) = then_run (snd r) f in (fst r @ l, q))"

text \<open>
  \<open>Promise.all([a, b])\<close>: fulfilled with both values, rejected when one of them is
  rejected. When both are rejected, JavaScript reports the reason of the one that is
  rejected first in time; the model reports the reason of the first of the array. No
  statement below names the reason of a \<open>Promise.all\<close> whose two promises are rejected
  with different reasons.
\<close>

definition promise_all :: "'a promise \<Rightarrow> 'b promise \<Rightarrow> ('a \<times> 'b) promise" where
  "promise_all a b =
     (case a of
        Inl e \<Rightarrow> Inl e
      | Inr x \<Rightarrow> (case b of Inl e \<Rightarrow> Inl e | Inr y \<Rightarrow> Inr (x, y)))"

section \<open>The utilities of \<^verbatim>\<open>jose-utils\<close>\<close>

text \<open>
  The module \<^verbatim>\<open>jose-utils\<close> is imported by the source and is not part of it; so are
  \<open>JSON.stringify\<close> and the tables of algorithms. The functions the encrypter calls
  are parameters of the model: \<open>encode\<close> is \<open>Base64Url.encode\<close> (on a string),
  \<open>encodeArray\<close> is \<open>Base64Url().encodeArray\<close>, \<open>encodeArrayBuffer\<close> is
  \<open>Base64Url.encodeArrayBuffer\<close>, and an object handed to \<open>JSON.stringify\<close> is the list
  of its entries.
\<close>

record utils =
  encode :: "string \<Rightarrow> string"
  encodeArray :: "bytes \<Rightarrow> string"
  encodeArrayBuffer :: "bytes \<Rightarrow> string"
  arrayFromString :: "string \<Rightarrow> bytes"
  arrayFromUtf8String :: "string \<Rightarrow> bytes"
  arrayFromInt32 :: "nat \<Rightarrow> bytes"
  JSON_stringify :: "(string \<times> string) list \<Rightarrow> string"

text \<open>
  Modelled from the spec: \<open>JoseJWE.Utils.arrayBufferConcat\<close> is defined in the absent
  \<^verbatim>\<open>jose-utils\<close>; the spec lists it as \<open>concatBytes(...buffers) -> bytes\<close>, the
  buffers joined in the order of the arguments.
\<close>

definition arrayBufferConcat :: "bytes list \<Rightarrow> bytes" where
  "arrayBufferConcat bufs = concat bufs"

section \<open>The AL field (lines 295 to 300)\<close>

text \<open>
  \<^verbatim>\<open>
  var al = new Uint8Array(JoseJWE.Utils.arrayFromInt32(aad.length * 8));
  var al_bigendian = new Uint8Array(8);
  for (var i=0; i<4; i++) { al_bigendian[7-i] = al[i]; }
  \<close>
  The eight bytes start as zeros and the loop writes the last four of them.
\<close>

definition al_bigendian :: "utils \<Rightarrow> bytes \<Rightarrow> bytes" where
  "al_bigendian u aad =
     (let al = arrayFromInt32 u (length aad * 8)
      in fold (\<lambda>i buf. buf[7 - i := u8_read al i]) [0..<4] (replicate 8 0))"

text \<open>
  \<^verbatim>\<open>arrayBufferConcat(aad.buffer, iv.buffer, cipher_text, al_bigendian.buffer)\<close>:
  the buffer that is signed.
\<close>

definition mac_buffer :: "utils \<Rightarrow> bytes \<Rightarrow> bytes \<Rightarrow> bytes \<Rightarrow> bytes" where
  "mac_buffer u aad iv0 cipher_text =
     arrayBufferConcat [aad, iv0, cipher_text, al_bigendian u aad]"


text \<open>
  The four bytes of a 32-bit number, the least significant first: what the buffer of a
  one-element \<open>Uint32Array\<close> holds on a little-endian host. It is the behaviour of
  \<open>arrayFromInt32\<close> under which the loop above yields a big-endian field.
\<close>

definition uint32_le_bytes :: "nat \<Rightarrow> bytes" where
  "uint32_le_bytes n = map (\<lambda>i. of_nat (n div 256 ^ i)) [0..<4]"


section \<open>The configuration of a \<open>JoseJWE\<close> object\<close>

text \<open>
  The tables of algorithms are not in the source; the records below hold the fields that
  \<^verbatim>\<open>jose-jwe-encrypt.js\<close> reads. An algorithm descriptor (\<open>config.id\<close>,
  \<open>config.auth.id\<close>, \<open>key_encryption.id\<close>) is handed to the provider as it is; the
  code reads \<open>config.id.name\<close> and \<open>config.id.length\<close> only. The fields \<open>id\<close> and
  \<open>jwe_name\<close> carry the prefix of their object. All sizes are numbers of bits, but
  \<open>iv_length\<close>, a number of bytes.
\<close>

record algorithm =
  alg_name :: string
  alg_length :: nat

record auth_config =
  aead :: bool
  tag_length :: nat
  key_size :: nat
  truncated_length :: nat
  auth_id :: algorithm

record content_encryption_config =
  ce_id :: algorithm
  ce_jwe_name :: string
  iv_length :: nat
  auth :: auth_config

record key_encryption_config =
  ke_id :: algorithm
  ke_jwe_name :: string

record jose =
  key_encryption :: key_encryption_config
  content_encryption :: content_encryption_config

section \<open>The crypto provider (\<open>crypto.subtle\<close>)\<close>

text \<open>
  The provider is outside the source: each of its operations is a parameter that gives the
  outcome of the promise the operation returns. A key handle (\<open>CryptoKey\<close>) is a value of
  the type \<open>'k\<close>. Every invocation is logged with its arguments.
\<close>

record enc_params =
  enc_name :: string
  enc_iv :: bytes
  additionalData :: "bytes option"
  tagLength :: "nat option"

datatype 'k subtle_call =
    GenerateKey algorithm bool "string list"
  | WrapKey string 'k 'k algorithm
  | ExportKey string 'k
  | ImportKey string bytes algorithm bool "string list"
  | Encrypt enc_params 'k bytes
  | Sign algorithm 'k bytes

record 'k subtle =
  generateKey :: "algorithm \<Rightarrow> bool \<Rightarrow> string list \<Rightarrow> 'k promise"
  wrapKey :: "string \<Rightarrow> 'k \<Rightarrow> 'k \<Rightarrow> algorithm \<Rightarrow> bytes promise"
  exportKey :: "string \<Rightarrow> 'k \<Rightarrow> bytes promise"
  importKey :: "string \<Rightarrow> bytes \<Rightarrow> algorithm \<Rightarrow> bool \<Rightarrow> string list \<Rightarrow> 'k promise"
  subtle_encrypt :: "enc_params \<Rightarrow> 'k \<Rightarrow> bytes \<Rightarrow> bytes promise"
  sign :: "algorithm \<Rightarrow> 'k \<Rightarrow> bytes \<Rightarrow> bytes promise"

definition call_generateKey ::
  "'k subtle \<Rightarrow> algorithm \<Rightarrow> bool \<Rightarrow> string list \<Rightarrow> ('k subtle_call, 'k) run" where
  "call_generateKey crypto a extractable usages =
     ([GenerateKey a extractable usages], generateKey crypto a extractable usages)"

definition call_wrapKey ::
  "'k subtle \<Rightarrow> string \<Rightarrow> 'k \<Rightarrow> 'k \<Rightarrow> algorithm \<Rightarrow> ('k subtle_call, bytes) run" where
  "call_wrapKey crypto format k wrapping a =
     ([WrapKey format k wrapping a], wrapKey crypto format k wrapping a)"

definition call_exportKey :: "'k subtle \<Rightarrow> string \<Rightarrow> 'k \<Rightarrow> ('k subtle_call, bytes) run" where
  "call_exportKey crypto format k = ([ExportKey format k], exportKey crypto format k)"

definition call_importKey ::
  "'k subtle \<Rightarrow> string \<Rightarrow> bytes \<Rightarrow> algorithm \<Rightarrow> bool \<Rightarrow> string list
     \<Rightarrow> ('k subtle_call, 'k) run" where
  "call_importKey crypto format raw a extractable usages =
     ([ImportKey format raw a extractable usages],
      importKey crypto format raw a extractable usages)"

definition call_encrypt ::
  "'k subtle \<Rightarrow> enc_params \<Rightarrow> 'k \<Rightarrow> bytes \<Rightarrow> ('k subtle_call, bytes) run" where
  "call_encrypt crypto enc k data = ([Encrypt enc k data], subtle_encrypt crypto enc k data)"

definition call_sign ::
  "'k subtle \<Rightarrow> algorithm \<Rightarrow> 'k \<Rightarrow> bytes \<Rightarrow> ('k subtle_call, bytes) run" where
  "call_sign crypto a k data = ([Sign a k data], sign crypto a k data)"

text \<open>\<open>p.then(f)\<close> for a callback that invokes no primitive and returns a plain value.\<close>

definition then_value :: "'a promise \<Rightarrow> ('a \<Rightarrow> 'b) \<Rightarrow> 'b promise" where
  "then_value p f = (case p of Inl e \<Rightarrow> Inl e | Inr v \<Rightarrow> Inr (f v))"

section \<open>\<open>JoseJWE.prototype\<close>: the functions of lines 149 to 315\<close>

text \<open>What \<open>encryptPlaintext\<close> and the cryptographer's \<open>encrypt\<close> resolve to.\<close>

record enc_result =
  header :: string
  iv :: bytes
  cipher :: bytes
  tag :: bytes

text \<open>
  \<open>crypto.getRandomValues(a)\<close> overwrites the elements of \<open>a\<close> and returns it; the
  random source gives the byte for each position.
\<close>

definition getRandomValues :: "(nat \<Rightarrow> byte) \<Rightarrow> bytes \<Rightarrow> bytes" where
  "getRandomValues rnd a = map rnd [0..<length a]"

definition JoseJWE_createIV :: "(nat \<Rightarrow> byte) \<Rightarrow> jose \<Rightarrow> bytes" where
  "JoseJWE_createIV rnd this =
     (let iv0 = replicate (iv_length (content_encryption this)) 0
      in getRandomValues rnd iv0)"

definition JoseJWE_createCEK ::
  "'k subtle \<Rightarrow> jose \<Rightarrow> string list \<Rightarrow> ('k subtle_call, 'k) run" where
  "JoseJWE_createCEK crypto this purpose =
     call_generateKey crypto (ce_id (content_encryption this)) True purpose"

definition JoseJWE_encryptCek ::
  "'k subtle \<Rightarrow> jose \<Rightarrow> 'k promise \<Rightarrow> 'k promise \<Rightarrow> ('k subtle_call, bytes) run" where
  "JoseJWE_encryptCek crypto this key_promise cek_promise =
     (let config = key_encryption this
      in then_run (promise_all key_promise cek_promise)
           (\<lambda>(key, cek). call_wrapKey crypto ''raw'' cek key (ke_id config)))"

text \<open>The branch \<open>config.auth.aead\<close> of \<open>encryptPlaintext\<close> (lines 235 to 257).\<close>

definition encryptPlaintext_aead ::
  "'k subtle \<Rightarrow> content_encryption_config \<Rightarrow> string \<Rightarrow> bytes \<Rightarrow> bytes \<Rightarrow> bytes
     \<Rightarrow> 'k promise \<Rightarrow> ('k subtle_call, enc_result) run" where
  "encryptPlaintext_aead crypto config jwe_protected_header iv0 aad plain_text cek_promise =
     (let tag_len = tag_length (auth config)
      in if tag_len mod 8 \<noteq> 0 then rejected InvalidTagLength
         else
           let enc = \<lparr> enc_name = alg_name (ce_id config), enc_iv = iv0,
                       additionalData = Some aad, tagLength = Some tag_len \<rparr>
           in then_run cek_promise (\<lambda>cek.
                and_then (call_encrypt crypto enc cek plain_text) (\<lambda>cipher_text.
                  let offset = int (length cipher_text) - int (tag_len div 8)
                  in resolved \<lparr> header = jwe_protected_header, iv = iv0,
                                 cipher = slice_buffer cipher_text 0 offset,
                                 tag = slice_from cipher_text offset \<rparr>)))"

text \<open>
  The other branch (lines 259 to 313). Each \<open>let\<close> is one promise of the source, with the
  log of the primitives its callback invokes. \<open>config.auth.key_size/8\<close> reaches \<open>slice\<close>,
  which drops the fraction of its argument.
\<close>

definition encryptPlaintext_composite ::
  "'k subtle \<Rightarrow> utils \<Rightarrow> content_encryption_config \<Rightarrow> string \<Rightarrow> bytes \<Rightarrow> bytes \<Rightarrow> bytes
     \<Rightarrow> 'k promise \<Rightarrow> ('k subtle_call, enc_result) run" where
  "encryptPlaintext_composite crypto u config jwe_protected_header iv0 aad plain_text cek_promise =
     (if truncated_length (auth config) mod 8 \<noteq> 0 then rejected InvalidTruncatedLength
      else
        let (l1, cek_bytes_promise) =
              then_run cek_promise (\<lambda>cek. call_exportKey crypto ''raw'' cek);
            (l2, mac_key_promise) =
              then_run cek_bytes_promise (\<lambda>cek_bytes.
                if length cek_bytes * 8 \<noteq> alg_length (ce_id config) + key_size (auth config)
                then rejected IncorrectCekLength
                else
                  let raw = slice_buffer cek_bytes 0 (int (key_size (auth config) div 8))
                  in call_importKey crypto ''raw'' raw (auth_id (auth config)) False [''sign'']);
            (l3, enc_key_promise) =
              then_run cek_bytes_promise (\<lambda>cek_bytes.
                if length cek_bytes * 8 \<noteq> alg_length (ce_id config) + key_size (auth config)
                then rejected IncorrectCekLength
                else
                  let raw = slice_from cek_bytes (int (key_size (auth config) div 8))
                  in call_importKey crypto ''raw'' raw (ce_id config) False [''encrypt'']);
            (l4, cipher_text_promise) =
              then_run enc_key_promise (\<lambda>enc_key.
                let enc = \<lparr> enc_name = alg_name (ce_id config), enc_iv = iv0,
                            additionalData = None, tagLength = None \<rparr>
                in call_encrypt crypto enc enc_key plain_text);
            (l5, mac_promise) =
              then_run (promise_all mac_key_promise cipher_text_promise)
                (\<lambda>(mac_key, cipher_text).
                   call_sign crypto (auth_id (auth config)) mac_key
                     (mac_buffer u aad iv0 cipher_text))
        in (l1 @ l2 @ l3 @ l4 @ l5,
            then_value (promise_all cipher_text_promise mac_promise)
              (\<lambda>(cipher_text, mac).
                 \<lparr> header = jwe_protected_header, iv = iv0, cipher = cipher_text,
                   tag = slice_buffer mac 0 (int (truncated_length (auth config) div 8)) \<rparr>)))"

text \<open>
  \<open>JoseJWE.prototype.encryptPlaintext\<close>. \<open>this.createIV()\<close> is a method that a test may
  replace, so what it returns in the run is the argument \<open>this_createIV\<close>.
\<close>

definition jwe_protected_header_of :: "utils \<Rightarrow> jose \<Rightarrow> string" where
  "jwe_protected_header_of u this =
     encode u (JSON_stringify u
       [(''alg'', ke_jwe_name (key_encryption this)),
        (''enc'', ce_jwe_name (content_encryption this))])"

definition encryptPlaintext ::
  "'k subtle \<Rightarrow> utils \<Rightarrow> jose \<Rightarrow> bytes \<Rightarrow> 'k promise \<Rightarrow> string
     \<Rightarrow> ('k subtle_call, enc_result) run" where
  "encryptPlaintext crypto u this this_createIV cek_promise plain_text =
     (let jwe_protected_header = jwe_protected_header_of u this;
          iv0 = this_createIV
      in if length iv0 \<noteq> iv_length (content_encryption this) then rejected InvalidIVLength
         else
           let aad = arrayFromString u jwe_protected_header;
               plain_bytes = arrayFromString u plain_text;
               config = content_encryption this
           in if aead (auth config)
              then encryptPlaintext_aead crypto config jwe_protected_header iv0 aad
                     plain_bytes cek_promise
              else encryptPlaintext_composite crypto u config jwe_protected_header iv0 aad
                     plain_bytes cek_promise)"

text \<open>
  \<open>JoseJWE.prototype.encrypt\<close>. Within \<open>encryptPlaintext\<close> the log is in the order
  of the invocations: a callback runs after the promise it is registered on, and the
  callbacks of one promise run in the order of their registration. \<open>wrapKey\<close> depends on
  the two keys only; the log has it before the invocations of \<open>encryptPlaintext\<close>, the
  scheduler may run it later, and no property below depends on its place in the log.
\<close>

definition JoseJWE_encrypt ::
  "'k subtle \<Rightarrow> utils \<Rightarrow> jose \<Rightarrow> bytes \<Rightarrow> 'k promise \<Rightarrow> string
     \<Rightarrow> ('k subtle_call, string) run" where
  "JoseJWE_encrypt crypto u this this_createIV key_promise plain_text =
     (let (l1, cek_promise) = JoseJWE_createCEK crypto this [''encrypt''];
          (l2, encrypted_cek) = JoseJWE_encryptCek crypto this key_promise cek_promise;
          (l3, enc_promise) =
            encryptPlaintext crypto u this this_createIV cek_promise plain_text
      in (l1 @ l2 @ l3,
          then_value (promise_all encrypted_cek enc_promise)
            (\<lambda>(encrypted_cek, data).
               header data @ ''.'' @
               encodeArrayBuffer u encrypted_cek @ ''.'' @
               encodeArrayBuffer u (iv data) @ ''.'' @
               encodeArrayBuffer u (cipher data) @ ''.'' @
               encodeArrayBuffer u (tag data))))"

section \<open>The class \<open>Encrypter\<close> (lines 24 to 141)\<close>

text \<open>
  The cryptographer (an instance of \<open>WebCryptographer\<close> or an equivalent) is outside the
  source; its methods are parameters, and each invocation of \<open>createIV\<close>, \<open>createCek\<close>,
  \<open>wrapCek\<close> and \<open>encrypt\<close> is logged.
\<close>

datatype 'k cryptographer_call =
    CreateIV
  | CreateCek
  | WrapCek 'k 'k
  | CryptographerEncrypt bytes bytes "'k promise" bytes

record 'k cryptographer =
  getKeyEncryptionAlgorithm :: string
  getContentEncryptionAlgorithm :: string
  createIV :: bytes
  createCek :: "'k promise"
  wrapCek :: "'k \<Rightarrow> 'k \<Rightarrow> bytes promise"
  cryptographer_encrypt :: "bytes \<Rightarrow> bytes \<Rightarrow> 'k promise \<Rightarrow> bytes \<Rightarrow> enc_result promise"

text \<open>
  An object used as a dictionary (\<open>userHeaders\<close>, \<open>headers\<close>) is the list of its entries:
  \<open>o[k] = v\<close> replaces the value of an entry that exists and appends a new entry
  otherwise. The values are strings, as the comment of \<open>addHeader\<close> says. The order in
  which the engine lists keys that look like array indices is not modelled; no property
  below depends on the order of the entries.
\<close>

record 'k encrypter =
  cryptographer :: "'k cryptographer"
  keyPromise :: "'k promise"
  userHeaders :: "(string \<times> string) list"

definition Encrypter :: "'k cryptographer \<Rightarrow> 'k promise \<Rightarrow> 'k encrypter" where
  "Encrypter cg kp = \<lparr> cryptographer = cg, keyPromise = kp, userHeaders = [] \<rparr>"

text \<open>
  \<open>this.userHeaders[k] = v\<close>. The key \<open>__proto__\<close> names the prototype of the object:
  assigning a string to it is ignored and adds no entry.
\<close>

definition addHeader :: "'k encrypter \<Rightarrow> string \<Rightarrow> string \<Rightarrow> 'k encrypter" where
  "addHeader this k v =
     (if k = ''__proto__'' then this
      else this\<lparr> userHeaders := AList.update k v (userHeaders this) \<rparr>)"

text \<open>Lines 65 to 70: the copy of the user's headers, then \<open>alg\<close> and \<open>enc\<close>.\<close>

definition Encrypter_headers :: "'k encrypter \<Rightarrow> (string \<times> string) list" where
  "Encrypter_headers this =
     (let headers = fold (\<lambda>(i, v) h. AList.update i v h) (userHeaders this) [];
          headers = AList.update ''alg'' (getKeyEncryptionAlgorithm (cryptographer this)) headers;
          headers = AList.update ''enc'' (getContentEncryptionAlgorithm (cryptographer this)) headers
      in headers)"

text \<open>The closure \<open>encryptPlainText\<close> of \<open>Encrypter.encrypt\<close> (lines 63 to 85).\<close>

definition Encrypter_encrypt_encryptPlainText ::
  "'k encrypter \<Rightarrow> utils \<Rightarrow> 'k promise \<Rightarrow> bytes \<Rightarrow> ('k cryptographer_call, enc_result) run" where
  "Encrypter_encrypt_encryptPlainText this u cekPromise uint8Array =
     (let jweProtectedHeader = encode u (JSON_stringify u (Encrypter_headers this));
          iv0 = createIV (cryptographer this);
          aad = arrayFromString u jweProtectedHeader;
          encryptPomise = cryptographer_encrypt (cryptographer this) iv0 aad cekPromise uint8Array
      in ([CreateIV, CryptographerEncrypt iv0 aad cekPromise uint8Array],
          then_value encryptPomise (\<lambda>r. r\<lparr> header := jweProtectedHeader, iv := iv0 \<rparr>)))"

text \<open>
  \<open>Encrypter.encrypt\<close>. \<open>presetCEK\<close> is \<open>None\<close> when the argument is \<open>undefined\<close>.
  \<open>createCek\<close>, \<open>createIV\<close> and the cryptographer's \<open>encrypt\<close> are invoked before
  \<open>encrypt\<close> returns, \<open>wrapCek\<close> in a callback later: the log is in that order.
\<close>

definition Encrypter_encrypt ::
  "'k encrypter \<Rightarrow> utils \<Rightarrow> bytes \<Rightarrow> 'k promise option \<Rightarrow> ('k cryptographer_call, string) run" where
  "Encrypter_encrypt this u uint8Array presetCEK =
     (let (l1, cekPromise, l2, encryptedCek) =
            (if getKeyEncryptionAlgorithm (cryptographer this) = ''dir''
             then ([], keyPromise this, [], Inr [])
             else
               let (l1, cekPromise) =
                     (case presetCEK of
                        None \<Rightarrow> ([CreateCek], createCek (cryptographer this))
                      | Some p \<Rightarrow> ([], p));
                   (l2, encryptedCek) =
                     then_run (promise_all (keyPromise this) cekPromise)
                       (\<lambda>(key, cek). ([WrapCek cek key], wrapCek (cryptographer this) cek key))
               in (l1, cekPromise, l2, encryptedCek));
          (l3, encPromise) = Encrypter_encrypt_encryptPlainText this u cekPromise uint8Array
      in (l1 @ l3 @ l2,
          then_value (promise_all encryptedCek encPromise)
            (\<lambda>(encryptedCek, data).
               header data @ ''.'' @
               encodeArray u encryptedCek @ ''.'' @
               encodeArray u (iv data) @ ''.'' @
               encodeArray u (cipher data) @ ''.'' @
               encodeArray u (tag data))))"

text \<open>\<open>Encrypter.encryptPlainText\<close> (lines 137 to 140).\<close>

definition Encrypter_encryptPlainText ::
  "'k encrypter \<Rightarrow> utils \<Rightarrow> string \<Rightarrow> 'k promise option \<Rightarrow> ('k cryptographer_call, string) run" where
  "Encrypter_encryptPlainText this u plainText presetCEK =
     (let uint8Array = arrayFromUtf8String u plainText
      in Encrypter_encrypt this u uint8Array presetCEK)"

section \<open>Stand-ins for the collaborators, for running examples\<close>

text \<open>
  Nothing below is part of the program. To run the functions above on an input, the
  parameters need values: an encoder that writes two hexadecimal digits for each byte in
  the place of base64url, the character codes of a string as its bytes, a stringifier,
  and a provider whose key handles are the raw bytes of the key. The provider appends a
  tag of \<open>tagLength/8\<close> bytes to what it encrypts with a tag length, and signs with 32
  bytes.
\<close>

definition hex_digit :: "nat \<Rightarrow> char" where
  "hex_digit n = ''0123456789abcdef'' ! n"

definition hex :: "bytes \<Rightarrow> string" where
  "hex bs = concat (map (\<lambda>b. [hex_digit (unat b div 16), hex_digit (unat b mod 16)]) bs)"

definition char_codes :: "string \<Rightarrow> bytes" where
  "char_codes s = map (\<lambda>c. of_nat (of_char c)) s"

definition example_utils :: utils where
  "example_utils =
     \<lparr> encode = (\<lambda>s. hex (char_codes s)),
       encodeArray = hex,
       encodeArrayBuffer = hex,
       arrayFromString = char_codes,
       arrayFromUtf8String = char_codes,
       arrayFromInt32 = uint32_le_bytes,
       JSON_stringify = (\<lambda>kvs. concat (map (\<lambda>(k, v). k @ ''='' @ v @ '';'') kvs)) \<rparr>"

definition example_subtle :: "bytes subtle" where
  "example_subtle =
     \<lparr> generateKey = (\<lambda>a extractable usages. Inr (replicate (alg_length a div 8) 7)),
       wrapKey = (\<lambda>format k wrapping a. Inr (map (\<lambda>b. b + 1) k)),
       exportKey = (\<lambda>format k. Inr k),
       importKey = (\<lambda>format raw a extractable usages. Inr raw),
       subtle_encrypt = (\<lambda>enc k data.
          case tagLength enc of
            Some t \<Rightarrow> Inr (map (\<lambda>b. b + 3) data @ replicate (t div 8) 170)
          | None \<Rightarrow> Inr (map (\<lambda>b. b + 3) data)),
       sign = (\<lambda>a k data. Inr (replicate 32 (of_nat (length data)))) \<rparr>"

text \<open>The parameters of A128GCM under A128KW and of A128CBC-HS256 under A128KW.\<close>

definition example_gcm :: jose where
  "example_gcm =
     \<lparr> key_encryption = \<lparr> ke_id = \<lparr> alg_name = ''AES-KW'', alg_length = 128 \<rparr>,
                          ke_jwe_name = ''A128KW'' \<rparr>,
       content_encryption =
         \<lparr> ce_id = \<lparr> alg_name = ''AES-GCM'', alg_length = 128 \<rparr>,
           ce_jwe_name = ''A128GCM'',
           iv_length = 12,
           auth = \<lparr> aead = True, tag_length = 128, key_size = 0, truncated_length = 0,
                    auth_id = \<lparr> alg_name = [], alg_length = 0 \<rparr> \<rparr> \<rparr> \<rparr>"

definition example_cbc :: jose where
  "example_cbc =
     \<lparr> key_encryption = \<lparr> ke_id = \<lparr> alg_name = ''AES-KW'', alg_length = 128 \<rparr>,
                          ke_jwe_name = ''A128KW'' \<rparr>,
       content_encryption =
         \<lparr> ce_id = \<lparr> alg_name = ''AES-CBC'', alg_length = 128 \<rparr>,
           ce_jwe_name = ''A128CBC-HS256'',
           iv_length = 16,
           auth = \<lparr> aead = False, tag_length = 0, key_size = 128, truncated_length = 128,
                    auth_id = \<lparr> alg_name = ''HMAC'', alg_length = 256 \<rparr> \<rparr> \<rparr> \<rparr>"

text \<open>A cryptographer for the class \<open>Encrypter\<close>, with the same conventions.\<close>

definition example_cryptographer :: "string \<Rightarrow> bytes cryptographer" where
  "example_cryptographer alg =
     \<lparr> getKeyEncryptionAlgorithm = alg,
       getContentEncryptionAlgorithm = ''A128GCM'',
       createIV = replicate 12 9,
       createCek = Inr (replicate 16 7),
       wrapCek = (\<lambda>cek key. Inr (map (\<lambda>b. b + 1) cek)),
       cryptographer_encrypt = (\<lambda>iv0 aad cekPromise data.
          then_value cekPromise (\<lambda>cek.
            \<lparr> header = [], iv = [], cipher = map (\<lambda>b. b + 3) data,
              tag = replicate 16 170 \<rparr>)) \<rparr>"

section \<open>Basic facts\<close>

lemma then_run_simps [simp]:
  "then_run (Inl e) f = ([], Inl e)" "then_run (Inr v) f = f v"
  by (simp_all add: then_run_def)

lemma then_value_simps [simp]:
  "then_value (Inl e) g = Inl e" "then_value (Inr v) g = Inr (g v)"
  by (simp_all add: then_value_def)

lemma promise_all_simps [simp]:
  "promise_all (Inl e) b = Inl e"
  "promise_all (Inr x) (Inl e) = Inl e"
  "promise_all (Inr x) (Inr y) = Inr (x, y)"
  by (simp_all add: promise_all_def)

lemma promise_all_Inr_iff:
  "promise_all a b = Inr p \<longleftrightarrow> a = Inr (fst p) \<and> b = Inr (snd p)"
  by (cases a; cases b; cases p) auto

lemma then_value_Inr_iff: "then_value p g = Inr y \<longleftrightarrow> (\<exists>v. p = Inr v \<and> y = g v)"
  by (cases p) auto

lemma slice_prefix: "slice_buffer buf 0 (int n) = take n buf"
  by (simp add: slice_buffer_def relative_index_def min_def)

lemma slice_from_suffix: "slice_from buf (int n) = drop n buf"
  by (simp add: slice_from_def slice_buffer_def relative_index_def min_def)


lemma slice_prefix_numeral: "slice_buffer buf 0 (numeral k) = take (numeral k) buf"
  using slice_prefix [of buf "numeral k"] by simp

lemma slice_from_suffix_numeral: "slice_from buf (numeral k) = drop (numeral k) buf"
  using slice_from_suffix [of buf "numeral k"] by simp

text \<open>
  The \<open>createIV\<close> of the source always returns an IV of the configured length: the check
  of the length in \<open>encryptPlaintext\<close> can fail only when the method has been replaced.
\<close>

lemma JoseJWE_createIV_length:
  "length (JoseJWE_createIV rnd this) = iv_length (content_encryption this)"
  by (simp add: JoseJWE_createIV_def getRandomValues_def)






section \<open>The runs of \<open>encryptPlaintext\<close>\<close>

lemma encryptPlaintext_composite_Inr:
  assumes "snd (encryptPlaintext_composite crypto u config hdr iv0 aad pt cek_promise) = Inr r"
  shows "\<exists>cek cek_bytes mac_key enc_key ct mac.
           truncated_length (auth config) mod 8 = 0
         \<and> cek_promise = Inr cek
         \<and> exportKey crypto ''raw'' cek = Inr cek_bytes
         \<and> length cek_bytes * 8 = alg_length (ce_id config) + key_size (auth config)
         \<and> importKey crypto ''raw'' (take (key_size (auth config) div 8) cek_bytes)
              (auth_id (auth config)) False [''sign''] = Inr mac_key
         \<and> importKey crypto ''raw'' (drop (key_size (auth config) div 8) cek_bytes)
              (ce_id config) False [''encrypt''] = Inr enc_key
         \<and> subtle_encrypt crypto
              \<lparr> enc_name = alg_name (ce_id config), enc_iv = iv0,
                additionalData = None, tagLength = None \<rparr> enc_key pt = Inr ct
         \<and> sign crypto (auth_id (auth config)) mac_key (mac_buffer u aad iv0 ct) = Inr mac
         \<and> r = \<lparr> header = hdr, iv = iv0, cipher = ct,
                 tag = take (truncated_length (auth config) div 8) mac \<rparr>
         \<and> fst (encryptPlaintext_composite crypto u config hdr iv0 aad pt cek_promise) =
             [ExportKey ''raw'' cek,
              ImportKey ''raw'' (take (key_size (auth config) div 8) cek_bytes)
                (auth_id (auth config)) False [''sign''],
              ImportKey ''raw'' (drop (key_size (auth config) div 8) cek_bytes)
                (ce_id config) False [''encrypt''],
              Encrypt \<lparr> enc_name = alg_name (ce_id config), enc_iv = iv0,
                        additionalData = None, tagLength = None \<rparr> enc_key pt,
              Sign (auth_id (auth config)) mac_key (mac_buffer u aad iv0 ct)]"
  using assms
  unfolding encryptPlaintext_composite_def
  by (auto simp: rejected_def call_exportKey_def call_importKey_def call_encrypt_def call_sign_def
        slice_prefix slice_from_suffix Let_def then_run_def then_value_def promise_all_def
      split: if_splits sum.splits prod.splits)

lemma encryptPlaintext_composite_Sign:
  assumes "Sign a k buf \<in> set (fst (encryptPlaintext_composite crypto u config hdr iv0 aad pt cek_promise))"
  shows "\<exists>ct. buf = mac_buffer u aad iv0 ct"
  using assms
  unfolding encryptPlaintext_composite_def
  by (auto simp: rejected_def call_exportKey_def call_importKey_def call_encrypt_def call_sign_def
        Let_def then_run_def promise_all_def
      split: if_splits sum.splits prod.splits)

lemma encryptPlaintext_composite_Encrypt:
  assumes "Encrypt enc k d \<in> set (fst (encryptPlaintext_composite crypto u config hdr iv0 aad pt cek_promise))"
  shows "additionalData enc = None \<and> tagLength enc = None \<and> enc_iv enc = iv0 \<and> d = pt"
  using assms
  unfolding encryptPlaintext_composite_def
  by (auto simp: rejected_def call_exportKey_def call_importKey_def call_encrypt_def call_sign_def
        Let_def then_run_def promise_all_def
      split: if_splits sum.splits prod.splits)

lemma encryptPlaintext_aead_log:
  "fst (encryptPlaintext_aead crypto config hdr iv0 aad pt cek_promise) =
     (case cek_promise of
        Inl e \<Rightarrow> []
      | Inr cek \<Rightarrow>
          if tag_length (auth config) mod 8 \<noteq> 0 then []
          else [Encrypt \<lparr> enc_name = alg_name (ce_id config), enc_iv = iv0,
                          additionalData = Some aad,
                          tagLength = Some (tag_length (auth config)) \<rparr> cek pt])"
  by (simp add: encryptPlaintext_aead_def Let_def rejected_def resolved_def and_then_def
        call_encrypt_def then_run_def split: sum.splits prod.splits)

lemma encryptPlaintext_aead_Inr:
  assumes "snd (encryptPlaintext_aead crypto config hdr iv0 aad pt cek_promise) = Inr r"
  shows "\<exists>cek combined.
           tag_length (auth config) mod 8 = 0
         \<and> cek_promise = Inr cek
         \<and> subtle_encrypt crypto
              \<lparr> enc_name = alg_name (ce_id config), enc_iv = iv0,
                additionalData = Some aad, tagLength = Some (tag_length (auth config)) \<rparr>
              cek pt = Inr combined
         \<and> r = \<lparr> header = hdr, iv = iv0,
                 cipher = slice_buffer combined 0
                            (int (length combined) - int (tag_length (auth config) div 8)),
                 tag = slice_from combined
                            (int (length combined) - int (tag_length (auth config) div 8)) \<rparr>"
  using assms
  by (auto simp: encryptPlaintext_aead_def Let_def rejected_def resolved_def and_then_def
        call_encrypt_def then_run_def split: sum.splits prod.splits if_splits)

lemma encryptPlaintext_Inr_header_iv:
  assumes "snd (encryptPlaintext crypto u this iv0 cek_promise plain_text) = Inr r"
  shows "header r = jwe_protected_header_of u this \<and> iv r = iv0
       \<and> length iv0 = iv_length (content_encryption this)"
proof (cases "aead (auth (content_encryption this))")
  case True
  with assms show ?thesis
    by (auto simp: encryptPlaintext_def Let_def rejected_def split: if_splits
          dest!: encryptPlaintext_aead_Inr)
next
  case False
  with assms show ?thesis
    by (auto simp: encryptPlaintext_def Let_def rejected_def split: if_splits
          dest!: encryptPlaintext_composite_Inr)
qed

section \<open>C1: the AL field\<close>



section \<open>C2: the split of the AEAD output\<close>




section \<open>C3: the split of the CEK\<close>

text \<open>
  C3. In composite mode (IV of the configured length, truncated length a multiple of 8),
  once the CEK is exported as raw bytes: when its bit length is \<open>key_size\<close> (the bits of
  the MAC key) plus \<open>id.length\<close> (the bits of the encryption key), the key imported for
  signing is made of exactly the first \<open>key_size/8\<close> bytes of the raw CEK and the key
  imported for encryption of exactly the remaining bytes, the MAC key first, and no other
  key is imported; when the bit length differs, the call is rejected with "encryptPlaintext:
  incorrect cek length", and nothing is imported, encrypted or signed.
\<close>

theorem cek_split:
  assumes "\<not> aead (auth (content_encryption this))"
      and "length iv0 = iv_length (content_encryption this)"
      and "truncated_length (auth (content_encryption this)) mod 8 = 0"
      and "exportKey crypto ''raw'' cek = Inr cek_bytes"
  shows "(length cek_bytes * 8 =
            alg_length (ce_id (content_encryption this)) + key_size (auth (content_encryption this))
          \<longrightarrow> (\<exists>rest.
                fst (encryptPlaintext crypto u this iv0 (Inr cek) plain_text) =
                  ExportKey ''raw'' cek
                  # ImportKey ''raw''
                      (take (key_size (auth (content_encryption this)) div 8) cek_bytes)
                      (auth_id (auth (content_encryption this))) False [''sign'']
                  # ImportKey ''raw''
                      (drop (key_size (auth (content_encryption this)) div 8) cek_bytes)
                      (ce_id (content_encryption this)) False [''encrypt'']
                  # rest
              \<and> (\<forall>format raw a extractable usages.
                    ImportKey format raw a extractable usages \<notin> set rest)))
       \<and> (length cek_bytes * 8 \<noteq>
            alg_length (ce_id (content_encryption this)) + key_size (auth (content_encryption this))
          \<longrightarrow> encryptPlaintext crypto u this iv0 (Inr cek) plain_text =
                ([ExportKey ''raw'' cek], Inl IncorrectCekLength))"
  using assms
  by (auto simp: encryptPlaintext_def encryptPlaintext_composite_def rejected_def
        call_exportKey_def call_importKey_def call_encrypt_def call_sign_def
        slice_prefix slice_from_suffix Let_def then_run_def then_value_def promise_all_def
      split: sum.splits prod.splits)

text \<open>
  A128CBC-HS256: a CEK of 32 bytes is split into two keys of 16 bytes; a CEK of 16 bytes is
  rejected.
\<close>

theorem cek_split_witness:
  "fst (encryptPlaintext example_subtle example_utils example_cbc (replicate 16 9)
          (Inr (replicate 16 1 @ replicate 16 2)) ''hello'')
     = [ExportKey ''raw'' (replicate 16 1 @ replicate 16 2),
        ImportKey ''raw'' (replicate 16 1) \<lparr> alg_name = ''HMAC'', alg_length = 256 \<rparr>
          False [''sign''],
        ImportKey ''raw'' (replicate 16 2) \<lparr> alg_name = ''AES-CBC'', alg_length = 128 \<rparr>
          False [''encrypt''],
        Encrypt \<lparr> enc_name = ''AES-CBC'', enc_iv = replicate 16 9, additionalData = None,
                  tagLength = None \<rparr> (replicate 16 2) (char_codes ''hello''),
        Sign \<lparr> alg_name = ''HMAC'', alg_length = 256 \<rparr> (replicate 16 1)
          (mac_buffer example_utils
             (char_codes (jwe_protected_header_of example_utils example_cbc))
             (replicate 16 9) (map (\<lambda>b. b + 3) (char_codes ''hello'')))]
   \<and> encryptPlaintext example_subtle example_utils example_cbc (replicate 16 9)
          (Inr (replicate 16 1)) ''hello''
     = ([ExportKey ''raw'' (replicate 16 1)], Inl IncorrectCekLength)"
proof -
  have c: "\<not> aead (auth (content_encryption example_cbc))"
    "length (replicate 16 (9::byte)) = iv_length (content_encryption example_cbc)"
    "truncated_length (auth (content_encryption example_cbc)) mod 8 = 0"
    by (simp_all add: example_cbc_def)
  have e32: "exportKey example_subtle ''raw'' (replicate 16 1 @ replicate 16 2)
               = Inr (replicate 16 1 @ replicate 16 2)"
    and e16: "exportKey example_subtle ''raw'' (replicate 16 1) = Inr (replicate 16 1)"
    by (simp_all add: example_subtle_def)
  from cek_split [OF c e32, of example_utils "''hello''"]
  obtain rest where
    "fst (encryptPlaintext example_subtle example_utils example_cbc (replicate 16 9)
            (Inr (replicate 16 1 @ replicate 16 2)) ''hello'')
       = ExportKey ''raw'' (replicate 16 1 @ replicate 16 2)
         # ImportKey ''raw'' (replicate 16 1) \<lparr> alg_name = ''HMAC'', alg_length = 256 \<rparr>
             False [''sign'']
         # ImportKey ''raw'' (replicate 16 2) \<lparr> alg_name = ''AES-CBC'', alg_length = 128 \<rparr>
             False [''encrypt'']
         # rest"
    by (auto simp: example_cbc_def)
  moreover have "drop 3 (fst (encryptPlaintext example_subtle example_utils example_cbc
            (replicate 16 9) (Inr (replicate 16 1 @ replicate 16 2)) ''hello''))
       = [Encrypt \<lparr> enc_name = ''AES-CBC'', enc_iv = replicate 16 9, additionalData = None,
                  tagLength = None \<rparr> (replicate 16 2) (char_codes ''hello''),
        Sign \<lparr> alg_name = ''HMAC'', alg_length = 256 \<rparr> (replicate 16 1)
          (mac_buffer example_utils
             (char_codes (jwe_protected_header_of example_utils example_cbc))
             (replicate 16 9) (map (\<lambda>b. b + 3) (char_codes ''hello'')))]"
    by (simp add: encryptPlaintext_def encryptPlaintext_composite_def rejected_def
        call_exportKey_def call_importKey_def call_encrypt_def call_sign_def
        slice_prefix_numeral slice_from_suffix_numeral Let_def example_cbc_def
        example_subtle_def example_utils_def)
  moreover from cek_split [OF c e16, of example_utils "''hello''"]
  have "encryptPlaintext example_subtle example_utils example_cbc (replicate 16 9)
          (Inr (replicate 16 1)) ''hello''
     = ([ExportKey ''raw'' (replicate 16 1)], Inl IncorrectCekLength)"
    by (simp add: example_cbc_def)
  ultimately show ?thesis by simp
qed

section \<open>C5: the tag of the composite mode\<close>




section \<open>The runs of \<open>Encrypter.encrypt\<close>\<close>

lemma Encrypter_encrypt_dir:
  assumes "getKeyEncryptionAlgorithm (cryptographer this) = ''dir''"
  shows "Encrypter_encrypt this u uint8Array presetCEK =
           (let jweProtectedHeader = encode u (JSON_stringify u (Encrypter_headers this));
                iv0 = createIV (cryptographer this);
                aad = arrayFromString u jweProtectedHeader
            in ([CreateIV, CryptographerEncrypt iv0 aad (keyPromise this) uint8Array],
                then_value
                  (cryptographer_encrypt (cryptographer this) iv0 aad (keyPromise this) uint8Array)
                  (\<lambda>r. jweProtectedHeader @ ''.'' @
                       encodeArray u [] @ ''.'' @
                       encodeArray u iv0 @ ''.'' @
                       encodeArray u (cipher r) @ ''.'' @
                       encodeArray u (tag r))))"
  using assms
  by (cases "cryptographer_encrypt (cryptographer this) (createIV (cryptographer this))
               (arrayFromString u (encode u (JSON_stringify u (Encrypter_headers this))))
               (keyPromise this) uint8Array")
     (simp_all add: Encrypter_encrypt_def Encrypter_encrypt_encryptPlainText_def Let_def)

section \<open>C6: direct key management\<close>

text \<open>
  C6. When the key-management algorithm of the cryptographer is \<open>dir\<close>, every call of
  \<open>Encrypter.encrypt\<close> invokes \<open>createIV\<close> and the cryptographer's \<open>encrypt\<close> and
  nothing else: the CEK handed to \<open>encrypt\<close> is the key promise given to the constructor,
  neither \<open>wrapCek\<close> nor \<open>createCek\<close> is invoked, and when the call succeeds the second
  segment of the output is the encoding of the empty byte sequence.
\<close>

theorem direct_key_management:
  assumes "getKeyEncryptionAlgorithm (cryptographer this) = ''dir''"
  shows "fst (Encrypter_encrypt this u uint8Array presetCEK) =
           [CreateIV,
            CryptographerEncrypt (createIV (cryptographer this))
              (arrayFromString u (encode u (JSON_stringify u (Encrypter_headers this))))
              (keyPromise this) uint8Array]
       \<and> (\<forall>cek key. WrapCek cek key \<notin> set (fst (Encrypter_encrypt this u uint8Array presetCEK)))
       \<and> (\<forall>out. snd (Encrypter_encrypt this u uint8Array presetCEK) = Inr out \<longrightarrow>
             (\<exists>r. cryptographer_encrypt (cryptographer this) (createIV (cryptographer this))
                    (arrayFromString u (encode u (JSON_stringify u (Encrypter_headers this))))
                    (keyPromise this) uint8Array = Inr r
                \<and> out = encode u (JSON_stringify u (Encrypter_headers this)) @ ''.'' @
                        encodeArray u [] @ ''.'' @
                        encodeArray u (createIV (cryptographer this)) @ ''.'' @
                        encodeArray u (cipher r) @ ''.'' @
                        encodeArray u (tag r)))"
  by (auto simp: Encrypter_encrypt_dir [OF assms] Let_def then_value_Inr_iff)

text \<open>
  The plaintext "hello" under \<open>dir\<close> with the key \<open>[1, 2, 3]\<close>, a preset CEK being given
  all the same: the key reaches \<open>encrypt\<close> and the second segment is empty.
\<close>

theorem direct_key_management_witness:
  "fst (Encrypter_encrypt (Encrypter (example_cryptographer ''dir'') (Inr [1, 2, 3]))
          example_utils (char_codes ''hello'') (Some (Inr [4, 5, 6])))
     = [CreateIV,
        CryptographerEncrypt (replicate 12 9)
          (char_codes ''616c673d6469723b656e633d4131323847434d3b'')
          (Inr [1, 2, 3]) (char_codes ''hello'')]
   \<and> snd (Encrypter_encrypt (Encrypter (example_cryptographer ''dir'') (Inr [1, 2, 3]))
          example_utils (char_codes ''hello'') (Some (Inr [4, 5, 6])))
     = Inr (''616c673d6469723b656e633d4131323847434d3b'' @ ''.'' @ [] @ ''.'' @
            hex (replicate 12 9) @ ''.'' @ ''6b686f6f72'' @ ''.'' @
            hex (replicate 16 170))"
proof -
  let ?e = "Encrypter (example_cryptographer ''dir'') (Inr [1, 2, 3]) :: bytes encrypter"
  have d: "getKeyEncryptionAlgorithm (cryptographer ?e) = ''dir''"
    by (simp add: Encrypter_def example_cryptographer_def)
  have h: "encode example_utils (JSON_stringify example_utils (Encrypter_headers ?e))
             = ''616c673d6469723b656e633d4131323847434d3b''"
    by (simp add: Encrypter_headers_def Encrypter_def example_cryptographer_def
          example_utils_def hex_def hex_digit_def char_codes_def)
  have s: "snd (Encrypter_encrypt ?e example_utils (char_codes ''hello'')
                  (Some (Inr [4, 5, 6])))
     = Inr (''616c673d6469723b656e633d4131323847434d3b'' @ ''.'' @ [] @ ''.'' @
            hex (replicate 12 9) @ ''.'' @ ''6b686f6f72'' @ ''.'' @
            hex (replicate 16 170))"
    unfolding Encrypter_encrypt_dir [OF d] Let_def h
    by (simp add: Encrypter_def example_cryptographer_def example_utils_def char_codes_def)
       (simp add: hex_def hex_digit_def)
  from direct_key_management [OF d, of example_utils "char_codes ''hello''" "Some (Inr [4, 5, 6])"]
  have "fst (Encrypter_encrypt ?e example_utils (char_codes ''hello'')
               (Some (Inr [4, 5, 6])))
     = [CreateIV,
        CryptographerEncrypt (replicate 12 9)
          (char_codes ''616c673d6469723b656e633d4131323847434d3b'')
          (Inr [1, 2, 3]) (char_codes ''hello'')]"
    unfolding h by (simp add: Encrypter_def example_cryptographer_def example_utils_def)
  with s show ?thesis by simp
qed

section \<open>C10: the preset CEK under direct key management\<close>

text \<open>
  C10. When the key-management algorithm is \<open>dir\<close>, \<open>Encrypter.encrypt\<close> does not
  depend on \<open>presetCEK\<close>: two calls that differ in this argument only invoke the same
  primitives on the same arguments and yield the same promise.
\<close>

theorem presetCEK_ignored_under_dir:
  assumes "getKeyEncryptionAlgorithm (cryptographer this) = ''dir''"
  shows "Encrypter_encrypt this u uint8Array presetCEK1 =
         Encrypter_encrypt this u uint8Array presetCEK2"
  by (simp add: Encrypter_encrypt_dir [OF assms])

text \<open>No preset CEK, and a preset CEK that is a rejected promise.\<close>

theorem presetCEK_ignored_under_dir_witness:
  "Encrypter_encrypt (Encrypter (example_cryptographer ''dir'') (Inr [1, 2, 3]))
     example_utils (char_codes ''hello'') None
   = Encrypter_encrypt (Encrypter (example_cryptographer ''dir'') (Inr [1, 2, 3]))
       example_utils (char_codes ''hello'') (Some (Inl (Failure ''no key'')))"
proof -
  have "getKeyEncryptionAlgorithm
          (cryptographer (Encrypter (example_cryptographer ''dir'') (Inr [1, 2, 3])
             :: bytes encrypter)) = ''dir''"
    by (simp add: Encrypter_def example_cryptographer_def)
  then show ?thesis by (rule presetCEK_ignored_under_dir)
qed

section \<open>The runs of \<open>JoseJWE.prototype.encrypt\<close>\<close>

lemma JoseJWE_encrypt_log:
  "fst (JoseJWE_encrypt crypto u this iv0 key_promise plain_text) =
     GenerateKey (ce_id (content_encryption this)) True [''encrypt'']
     # fst (JoseJWE_encryptCek crypto this key_promise
             (generateKey crypto (ce_id (content_encryption this)) True [''encrypt'']))
     @ fst (encryptPlaintext crypto u this iv0
             (generateKey crypto (ce_id (content_encryption this)) True [''encrypt''])
             plain_text)"
  by (simp add: JoseJWE_encrypt_def JoseJWE_createCEK_def call_generateKey_def
        split: prod.splits)

lemma JoseJWE_encrypt_outcome:
  "snd (JoseJWE_encrypt crypto u this iv0 key_promise plain_text) =
     then_value
       (promise_all
          (snd (JoseJWE_encryptCek crypto this key_promise
                  (generateKey crypto (ce_id (content_encryption this)) True [''encrypt''])))
          (snd (encryptPlaintext crypto u this iv0
                  (generateKey crypto (ce_id (content_encryption this)) True [''encrypt''])
                  plain_text)))
       (\<lambda>(encrypted_cek, data).
          header data @ ''.'' @
          encodeArrayBuffer u encrypted_cek @ ''.'' @
          encodeArrayBuffer u (iv data) @ ''.'' @
          encodeArrayBuffer u (cipher data) @ ''.'' @
          encodeArrayBuffer u (tag data))"
  by (simp add: JoseJWE_encrypt_def JoseJWE_createCEK_def call_generateKey_def
        split: prod.splits)

lemma JoseJWE_encryptCek_log:
  assumes "c \<in> set (fst (JoseJWE_encryptCek crypto this key_promise cek_promise))"
  shows "\<exists>cek key. c = WrapKey ''raw'' cek key (ke_id (key_encryption this))"
  using assms
  by (auto simp: JoseJWE_encryptCek_def call_wrapKey_def Let_def then_run_def
        split: sum.splits)

lemma promise_all_Inl_right: "\<exists>e'. promise_all a (Inl e) = Inl e'"
  by (cases a) simp_all

section \<open>C7: validation before the primitives\<close>

text \<open>
  C7. \<open>encryptPlaintext\<close> checks its parameters before it invokes anything of the
  provider: when the IV that \<open>createIV\<close> returned has not the configured length, the call
  is rejected with "encryptPlaintext: invalid IV length"; when \<open>tag_length\<close> in AEAD mode,
  or \<open>truncated_length\<close> in composite mode, is not a multiple of 8, it is rejected with
  the reason of that check (or of the check of the IV, which comes first); in the three
  cases the log of invocations is empty. Then \<open>JoseJWE.prototype.encrypt\<close> is rejected
  as well, and of the provider it has invoked \<open>generateKey\<close> and at most \<open>wrapKey\<close>:
  no key is exported or imported, nothing is encrypted and nothing is signed.
\<close>

theorem eager_validation:
  "(length iv0 \<noteq> iv_length (content_encryption this)
      \<longrightarrow> encryptPlaintext crypto u this iv0 cek_promise plain_text = ([], Inl InvalidIVLength))
   \<and> (aead (auth (content_encryption this))
        \<and> tag_length (auth (content_encryption this)) mod 8 \<noteq> 0
      \<longrightarrow> encryptPlaintext crypto u this iv0 cek_promise plain_text =
            ([], Inl (if length iv0 \<noteq> iv_length (content_encryption this)
                      then InvalidIVLength else InvalidTagLength)))
   \<and> (\<not> aead (auth (content_encryption this))
        \<and> truncated_length (auth (content_encryption this)) mod 8 \<noteq> 0
      \<longrightarrow> encryptPlaintext crypto u this iv0 cek_promise plain_text =
            ([], Inl (if length iv0 \<noteq> iv_length (content_encryption this)
                      then InvalidIVLength else InvalidTruncatedLength)))
   \<and> (length iv0 \<noteq> iv_length (content_encryption this)
        \<or> aead (auth (content_encryption this))
            \<and> tag_length (auth (content_encryption this)) mod 8 \<noteq> 0
        \<or> \<not> aead (auth (content_encryption this))
            \<and> truncated_length (auth (content_encryption this)) mod 8 \<noteq> 0
      \<longrightarrow> (\<exists>e. snd (JoseJWE_encrypt crypto u this iv0 key_promise plain_text) = Inl e)
          \<and> (\<forall>c \<in> set (fst (JoseJWE_encrypt crypto u this iv0 key_promise plain_text)).
                c = GenerateKey (ce_id (content_encryption this)) True [''encrypt'']
                \<or> (\<exists>cek key. c = WrapKey ''raw'' cek key (ke_id (key_encryption this)))))"
proof -
  let ?cek = "generateKey crypto (ce_id (content_encryption this)) True [''encrypt'']"
  have iv: "encryptPlaintext crypto u this iv0 p plain_text = ([], Inl InvalidIVLength)"
    if "length iv0 \<noteq> iv_length (content_encryption this)" for p :: "'a promise"
    using that by (simp add: encryptPlaintext_def Let_def rejected_def)
  have tl: "encryptPlaintext crypto u this iv0 p plain_text =
              ([], Inl (if length iv0 \<noteq> iv_length (content_encryption this)
                        then InvalidIVLength else InvalidTagLength))"
    if "aead (auth (content_encryption this))"
       "tag_length (auth (content_encryption this)) mod 8 \<noteq> 0" for p :: "'a promise"
    using that
    by (simp add: encryptPlaintext_def encryptPlaintext_aead_def Let_def rejected_def)
  have tr: "encryptPlaintext crypto u this iv0 p plain_text =
              ([], Inl (if length iv0 \<noteq> iv_length (content_encryption this)
                        then InvalidIVLength else InvalidTruncatedLength))"
    if "\<not> aead (auth (content_encryption this))"
       "truncated_length (auth (content_encryption this)) mod 8 \<noteq> 0" for p :: "'a promise"
    using that
    by (simp add: encryptPlaintext_def encryptPlaintext_composite_def Let_def rejected_def)
  have top: "(\<exists>e. snd (JoseJWE_encrypt crypto u this iv0 key_promise plain_text) = Inl e)
          \<and> (\<forall>c \<in> set (fst (JoseJWE_encrypt crypto u this iv0 key_promise plain_text)).
                c = GenerateKey (ce_id (content_encryption this)) True [''encrypt'']
                \<or> (\<exists>cek key. c = WrapKey ''raw'' cek key (ke_id (key_encryption this))))"
    if "\<exists>e. encryptPlaintext crypto u this iv0 ?cek plain_text = ([], Inl e)"
  proof -
    from that obtain e where e: "encryptPlaintext crypto u this iv0 ?cek plain_text = ([], Inl e)"
      by blast
    obtain e' where
      "promise_all (snd (JoseJWE_encryptCek crypto this key_promise ?cek)) (Inl e :: enc_result promise)
         = Inl e'"
      using promise_all_Inl_right by blast
    then have "snd (JoseJWE_encrypt crypto u this iv0 key_promise plain_text) = Inl e'"
      by (simp add: JoseJWE_encrypt_outcome e)
    moreover have "\<forall>c \<in> set (fst (JoseJWE_encrypt crypto u this iv0 key_promise plain_text)).
                c = GenerateKey (ce_id (content_encryption this)) True [''encrypt'']
                \<or> (\<exists>cek key. c = WrapKey ''raw'' cek key (ke_id (key_encryption this)))"
      by (auto simp: JoseJWE_encrypt_log e dest: JoseJWE_encryptCek_log)
    ultimately show ?thesis by blast
  qed
  show ?thesis
    using iv [of cek_promise] tl [of cek_promise] tr [of cek_promise]
          top iv [of ?cek] tl [of ?cek] tr [of ?cek]
    by (intro conjI impI) blast+
qed

text \<open>
  A128GCM with an IV of 11 bytes in the place of 12, A128GCM with a tag length of 100 bits,
  A128CBC-HS256 with a truncated length of 100 bits; and what \<open>encrypt\<close> has invoked in
  the first of these cases.
\<close>

theorem eager_validation_witness:
  "encryptPlaintext example_subtle example_utils example_gcm (replicate 11 9)
     (Inr (replicate 16 5)) ''hello'' = ([], Inl InvalidIVLength)
   \<and> encryptPlaintext example_subtle example_utils
       (example_gcm\<lparr> content_encryption :=
          (content_encryption example_gcm)\<lparr> auth :=
             (auth (content_encryption example_gcm))\<lparr> tag_length := 100 \<rparr> \<rparr> \<rparr>)
       (replicate 12 9) (Inr (replicate 16 5)) ''hello'' = ([], Inl InvalidTagLength)
   \<and> encryptPlaintext example_subtle example_utils
       (example_cbc\<lparr> content_encryption :=
          (content_encryption example_cbc)\<lparr> auth :=
             (auth (content_encryption example_cbc))\<lparr> truncated_length := 100 \<rparr> \<rparr> \<rparr>)
       (replicate 16 9) (Inr (replicate 32 5)) ''hello'' = ([], Inl InvalidTruncatedLength)
   \<and> JoseJWE_encrypt example_subtle example_utils example_gcm (replicate 11 9)
       (Inr (replicate 16 5)) ''hello''
     = ([GenerateKey \<lparr> alg_name = ''AES-GCM'', alg_length = 128 \<rparr> True [''encrypt''],
         WrapKey ''raw'' (replicate 16 7) (replicate 16 5)
           \<lparr> alg_name = ''AES-KW'', alg_length = 128 \<rparr>],
        Inl InvalidIVLength)"
proof -
  have a: "encryptPlaintext example_subtle example_utils example_gcm (replicate 11 9)
     (Inr (replicate 16 5)) ''hello'' = ([], Inl InvalidIVLength)"
    using eager_validation [of "replicate 11 9" example_gcm example_subtle example_utils
            "Inr (replicate 16 5)" "''hello''" "Inr (replicate 16 5)"]
    by (simp add: example_gcm_def)
  have b: "encryptPlaintext example_subtle example_utils
       (example_gcm\<lparr> content_encryption :=
          (content_encryption example_gcm)\<lparr> auth :=
             (auth (content_encryption example_gcm))\<lparr> tag_length := 100 \<rparr> \<rparr> \<rparr>)
       (replicate 12 9) (Inr (replicate 16 5)) ''hello'' = ([], Inl InvalidTagLength)"
    using eager_validation [of "replicate 12 9"
            "example_gcm\<lparr> content_encryption :=
               (content_encryption example_gcm)\<lparr> auth :=
                 (auth (content_encryption example_gcm))\<lparr> tag_length := 100 \<rparr> \<rparr> \<rparr>"
            example_subtle example_utils
            "Inr (replicate 16 5)" "''hello''" "Inr (replicate 16 5)"]
    by (simp add: example_gcm_def)
  have c: "encryptPlaintext example_subtle example_utils
       (example_cbc\<lparr> content_encryption :=
          (content_encryption example_cbc)\<lparr> auth :=
             (auth (content_encryption example_cbc))\<lparr> truncated_length := 100 \<rparr> \<rparr> \<rparr>)
       (replicate 16 9) (Inr (replicate 32 5)) ''hello'' = ([], Inl InvalidTruncatedLength)"
    using eager_validation [of "replicate 16 9"
            "example_cbc\<lparr> content_encryption :=
               (content_encryption example_cbc)\<lparr> auth :=
                 (auth (content_encryption example_cbc))\<lparr> truncated_length := 100 \<rparr> \<rparr> \<rparr>"
            example_subtle example_utils
            "Inr (replicate 32 5)" "''hello''" "Inr (replicate 16 5)"]
    by (simp add: example_cbc_def)
  have d: "JoseJWE_encrypt example_subtle example_utils example_gcm (replicate 11 9)
       (Inr (replicate 16 5)) ''hello''
     = ([GenerateKey \<lparr> alg_name = ''AES-GCM'', alg_length = 128 \<rparr> True [''encrypt''],
         WrapKey ''raw'' (replicate 16 7) (replicate 16 5)
           \<lparr> alg_name = ''AES-KW'', alg_length = 128 \<rparr>],
        Inl InvalidIVLength)"
    by (simp add: JoseJWE_encrypt_def JoseJWE_createCEK_def JoseJWE_encryptCek_def
          call_generateKey_def call_wrapKey_def encryptPlaintext_def rejected_def Let_def
          example_gcm_def example_subtle_def)
  from a b c d show ?thesis by simp
qed

section \<open>C8: the protected header\<close>

lemma map_of_fold_update:
  "map_of (fold (\<lambda>(i, v) h. AList.update i v h) xs acc) = map_of acc ++ map_of (rev xs)"
proof (induction xs arbitrary: acc)
  case Nil
  then show ?case by simp
next
  case (Cons x xs)
  obtain k v where x: "x = (k, v)" by (cases x)
  have "map_of (fold (\<lambda>(i, v) h. AList.update i v h) (x # xs) acc)
          = map_of (AList.update k v acc) ++ map_of (rev xs)"
    using Cons.IH [of "AList.update k v acc"] by (simp add: x)
  also have "\<dots> = map_of acc ++ map_of (rev (x # xs))"
    by (simp add: x update_conv')
  finally show ?case .
qed

text \<open>
  C8. For every set of headers that the caller has added, the mapping that
  \<open>Encrypter.encrypt\<close> serializes consists of the caller's entries (the latest value of
  each key), with \<open>alg\<close> set to the key-management algorithm and \<open>enc\<close> to the
  content-encryption algorithm of the cryptographer, in the place of any entry of the
  caller with these names; no key occurs twice.
\<close>

theorem protected_header_alg_enc:
  "map_of (Encrypter_headers this) ''alg''
     = Some (getKeyEncryptionAlgorithm (cryptographer this))
   \<and> map_of (Encrypter_headers this) ''enc''
     = Some (getContentEncryptionAlgorithm (cryptographer this))
   \<and> map_of (Encrypter_headers this)
     = (map_of (rev (userHeaders this)))
         (''alg'' \<mapsto> getKeyEncryptionAlgorithm (cryptographer this),
          ''enc'' \<mapsto> getContentEncryptionAlgorithm (cryptographer this))
   \<and> distinct (map fst (Encrypter_headers this))
   \<and> fst (Encrypter_encrypt_encryptPlainText this u cekPromise uint8Array)
     = [CreateIV,
        CryptographerEncrypt (createIV (cryptographer this))
          (arrayFromString u (encode u (JSON_stringify u (Encrypter_headers this))))
          cekPromise uint8Array]"
proof -
  have d: "distinct (map fst (fold (\<lambda>(i, v) h. AList.update i v h) xs acc))"
    if "distinct (map fst acc)" for xs and acc :: "(string \<times> string) list"
    using that by (induction xs arbitrary: acc) (auto simp: distinct_update)
  have "distinct (map fst (Encrypter_headers this))"
    by (simp add: Encrypter_headers_def Let_def distinct_update d)
  moreover have "map_of (Encrypter_headers this)
     = (map_of (rev (userHeaders this)))
         (''alg'' \<mapsto> getKeyEncryptionAlgorithm (cryptographer this),
          ''enc'' \<mapsto> getContentEncryptionAlgorithm (cryptographer this))"
    by (simp add: Encrypter_headers_def Let_def update_conv' map_of_fold_update)
  moreover from this have
    "map_of (Encrypter_headers this) ''alg''
       = Some (getKeyEncryptionAlgorithm (cryptographer this))"
    "map_of (Encrypter_headers this) ''enc''
       = Some (getContentEncryptionAlgorithm (cryptographer this))"
    by simp_all
  ultimately show ?thesis
    by (simp add: Encrypter_encrypt_encryptPlainText_def Let_def)
qed

text \<open>
  The caller adds \<open>kid\<close>, and \<open>alg\<close> with the value "none": the header keeps \<open>kid\<close>, and
  its \<open>alg\<close> is that of the cryptographer.
\<close>

theorem protected_header_alg_enc_witness:
  "Encrypter_headers
     (addHeader (addHeader (Encrypter (example_cryptographer ''A128KW'') (Inr [1, 2, 3]))
        ''kid'' ''k1'') ''alg'' ''none'')
     = [(''kid'', ''k1''), (''alg'', ''A128KW''), (''enc'', ''A128GCM'')]
   \<and> map_of (Encrypter_headers
        (addHeader (addHeader (Encrypter (example_cryptographer ''A128KW'') (Inr [1, 2, 3]))
           ''kid'' ''k1'') ''alg'' ''none'')) ''alg'' = Some ''A128KW''"
proof -
  let ?e = "addHeader (addHeader (Encrypter (example_cryptographer ''A128KW'') (Inr [1, 2, 3]))
              ''kid'' ''k1'') ''alg'' ''none'' :: bytes encrypter"
  have "map_of (Encrypter_headers ?e) ''alg''
          = Some (getKeyEncryptionAlgorithm (cryptographer ?e))"
    using protected_header_alg_enc [of ?e] by blast
  moreover have "getKeyEncryptionAlgorithm (cryptographer ?e) = ''A128KW''"
    by (simp add: addHeader_def Encrypter_def example_cryptographer_def)
  moreover have "Encrypter_headers ?e
     = [(''kid'', ''k1''), (''alg'', ''A128KW''), (''enc'', ''A128GCM'')]"
    by (simp add: Encrypter_headers_def addHeader_def Encrypter_def example_cryptographer_def)
  ultimately show ?thesis by simp
qed

section \<open>The invocations and the outcome of the two \<open>encrypt\<close> functions\<close>

lemma encryptPlaintext_log_Encrypt:
  assumes "Encrypt enc k d \<in> set (fst (encryptPlaintext crypto u this iv0 cek_promise plain_text))"
  shows "additionalData enc =
           (if aead (auth (content_encryption this))
            then Some (arrayFromString u (jwe_protected_header_of u this)) else None)"
  using assms
  by (auto simp: encryptPlaintext_def Let_def rejected_def encryptPlaintext_aead_log
        split: if_splits sum.splits dest: encryptPlaintext_composite_Encrypt)

lemma encryptPlaintext_log_Sign:
  assumes "Sign a k buf \<in> set (fst (encryptPlaintext crypto u this iv0 cek_promise plain_text))"
  shows "\<not> aead (auth (content_encryption this))
       \<and> (\<exists>ct. buf = mac_buffer u (arrayFromString u (jwe_protected_header_of u this)) iv0 ct)"
  using assms
  by (auto simp: encryptPlaintext_def Let_def rejected_def encryptPlaintext_aead_log
        split: if_splits sum.splits dest: encryptPlaintext_composite_Sign)

lemma encryptPlaintext_Inr_invokes:
  assumes "snd (encryptPlaintext crypto u this iv0 cek_promise plain_text) = Inr r"
  shows "if aead (auth (content_encryption this))
         then \<exists>enc k d. Encrypt enc k d
                  \<in> set (fst (encryptPlaintext crypto u this iv0 cek_promise plain_text))
                \<and> additionalData enc = Some (arrayFromString u (jwe_protected_header_of u this))
         else \<exists>a k ct. Sign a k
                  (mac_buffer u (arrayFromString u (jwe_protected_header_of u this)) iv0 ct)
                  \<in> set (fst (encryptPlaintext crypto u this iv0 cek_promise plain_text))"
proof (cases "aead (auth (content_encryption this))")
  case True
  with assms have
    "snd (encryptPlaintext_aead crypto (content_encryption this)
            (jwe_protected_header_of u this) iv0
            (arrayFromString u (jwe_protected_header_of u this))
            (arrayFromString u plain_text) cek_promise) = Inr r"
    and run: "encryptPlaintext crypto u this iv0 cek_promise plain_text =
       encryptPlaintext_aead crypto (content_encryption this)
            (jwe_protected_header_of u this) iv0
            (arrayFromString u (jwe_protected_header_of u this))
            (arrayFromString u plain_text) cek_promise"
    by (auto simp: encryptPlaintext_def Let_def rejected_def split: if_splits)
  from encryptPlaintext_aead_Inr [OF this(1)] obtain cek where
    "tag_length (auth (content_encryption this)) mod 8 = 0" "cek_promise = Inr cek"
    by auto
  then have "Encrypt \<lparr> enc_name = alg_name (ce_id (content_encryption this)), enc_iv = iv0,
                       additionalData = Some (arrayFromString u (jwe_protected_header_of u this)),
                       tagLength = Some (tag_length (auth (content_encryption this))) \<rparr>
               cek (arrayFromString u plain_text)
             \<in> set (fst (encryptPlaintext crypto u this iv0 cek_promise plain_text))"
    unfolding run by (simp add: encryptPlaintext_aead_log)
  with True show ?thesis by force
next
  case False
  with assms have
    "snd (encryptPlaintext_composite crypto u (content_encryption this)
            (jwe_protected_header_of u this) iv0
            (arrayFromString u (jwe_protected_header_of u this))
            (arrayFromString u plain_text) cek_promise) = Inr r"
    and run: "encryptPlaintext crypto u this iv0 cek_promise plain_text =
       encryptPlaintext_composite crypto u (content_encryption this)
            (jwe_protected_header_of u this) iv0
            (arrayFromString u (jwe_protected_header_of u this))
            (arrayFromString u plain_text) cek_promise"
    by (auto simp: encryptPlaintext_def Let_def rejected_def split: if_splits)
  from encryptPlaintext_composite_Inr [OF this(1)] obtain mac_key ct where
    "Sign (auth_id (auth (content_encryption this))) mac_key
       (mac_buffer u (arrayFromString u (jwe_protected_header_of u this)) iv0 ct)
     \<in> set (fst (encryptPlaintext_composite crypto u (content_encryption this)
            (jwe_protected_header_of u this) iv0
            (arrayFromString u (jwe_protected_header_of u this))
            (arrayFromString u plain_text) cek_promise))"
    by auto
  with False run show ?thesis by auto
qed

lemma JoseJWE_encrypt_Inr:
  assumes "snd (JoseJWE_encrypt crypto u this iv0 key_promise plain_text) = Inr out"
  shows "\<exists>key cek w r.
           key_promise = Inr key
         \<and> generateKey crypto (ce_id (content_encryption this)) True [''encrypt''] = Inr cek
         \<and> wrapKey crypto ''raw'' cek key (ke_id (key_encryption this)) = Inr w
         \<and> snd (encryptPlaintext crypto u this iv0 (Inr cek) plain_text) = Inr r
         \<and> out = header r @ ''.'' @
                 encodeArrayBuffer u w @ ''.'' @
                 encodeArrayBuffer u (iv r) @ ''.'' @
                 encodeArrayBuffer u (cipher r) @ ''.'' @
                 encodeArrayBuffer u (tag r)"
  using assms
  by (auto simp: JoseJWE_encrypt_outcome then_value_Inr_iff promise_all_Inr_iff
        JoseJWE_encryptCek_def call_wrapKey_def Let_def then_run_def
      split: sum.splits)

lemma Encrypter_encrypt_log:
  "\<exists>before cekPromise after.
     fst (Encrypter_encrypt this u uint8Array presetCEK) =
       before
       @ [CreateIV,
          CryptographerEncrypt (createIV (cryptographer this))
            (arrayFromString u (encode u (JSON_stringify u (Encrypter_headers this))))
            cekPromise uint8Array]
       @ after
     \<and> set before \<subseteq> {CreateCek}
     \<and> (\<forall>c \<in> set after. \<exists>cek key. c = WrapCek cek key)"
proof (cases "getKeyEncryptionAlgorithm (cryptographer this) = ''dir''")
  case True
  have "fst (Encrypter_encrypt this u uint8Array presetCEK) =
       [] @ [CreateIV,
          CryptographerEncrypt (createIV (cryptographer this))
            (arrayFromString u (encode u (JSON_stringify u (Encrypter_headers this))))
            (keyPromise this) uint8Array] @ []"
    by (simp add: Encrypter_encrypt_dir [OF True] Let_def)
  then show ?thesis by (intro exI conjI) (assumption, simp_all)
next
  case False
  define cekPromise where
    "cekPromise = (case presetCEK of None \<Rightarrow> createCek (cryptographer this) | Some p \<Rightarrow> p)"
  define before :: "'a cryptographer_call list" where
    "before = (case presetCEK of None \<Rightarrow> [CreateCek] | Some p \<Rightarrow> [])"
  define after where
    "after = fst (then_run (promise_all (keyPromise this) cekPromise)
                    (\<lambda>(key, cek). ([WrapCek cek key], wrapCek (cryptographer this) cek key)))"
  have "fst (Encrypter_encrypt this u uint8Array presetCEK) =
       before @ [CreateIV,
          CryptographerEncrypt (createIV (cryptographer this))
            (arrayFromString u (encode u (JSON_stringify u (Encrypter_headers this))))
            cekPromise uint8Array] @ after"
    using False
    by (simp add: Encrypter_encrypt_def Encrypter_encrypt_encryptPlainText_def Let_def
          before_def after_def cekPromise_def split: option.splits prod.splits)
  moreover have "set before \<subseteq> {CreateCek}"
    by (cases presetCEK) (simp_all add: before_def)
  moreover have "\<forall>c \<in> set after. \<exists>cek key. c = WrapCek cek key"
    by (auto simp: after_def then_run_def split: sum.splits)
  ultimately show ?thesis by blast
qed

lemma Encrypter_encrypt_Inr:
  assumes "snd (Encrypter_encrypt this u uint8Array presetCEK) = Inr out"
  shows "\<exists>w cekPromise r.
           cryptographer_encrypt (cryptographer this) (createIV (cryptographer this))
             (arrayFromString u (encode u (JSON_stringify u (Encrypter_headers this))))
             cekPromise uint8Array = Inr r
         \<and> (if getKeyEncryptionAlgorithm (cryptographer this) = ''dir''
             then w = [] \<and> cekPromise = keyPromise this
             else \<exists>key cek. keyPromise this = Inr key \<and> cekPromise = Inr cek
                    \<and> cekPromise = (case presetCEK of
                                       None \<Rightarrow> createCek (cryptographer this)
                                     | Some p \<Rightarrow> p)
                    \<and> wrapCek (cryptographer this) cek key = Inr w)
         \<and> out = encode u (JSON_stringify u (Encrypter_headers this)) @ ''.'' @
                 encodeArray u w @ ''.'' @
                 encodeArray u (createIV (cryptographer this)) @ ''.'' @
                 encodeArray u (cipher r) @ ''.'' @
                 encodeArray u (tag r)"
proof (cases "getKeyEncryptionAlgorithm (cryptographer this) = ''dir''")
  case True
  with assms show ?thesis
    by (auto simp: Encrypter_encrypt_dir [OF True] Let_def then_value_Inr_iff)
next
  case False
  with assms show ?thesis
    by (auto simp: Encrypter_encrypt_def Encrypter_encrypt_encryptPlainText_def Let_def
          then_value_Inr_iff promise_all_Inr_iff then_run_def
        split: option.splits prod.splits sum.splits)
qed

section \<open>C4: the AAD\<close>

text \<open>
  Through \<open>JoseJWE.prototype.encrypt\<close> the composite mode depends on the provider: the
  CEK is generated for \<open>content_encryption.id\<close> (line 161), and line 268 wants a CEK of
  \<open>id.length + key_size\<close> bits. With a provider whose generated key has \<open>id.length\<close>
  bits, the content encryption is rejected before anything is imported, encrypted or
  signed. The composite mode is therefore also stated on \<open>encryptPlaintext\<close>, which
  takes the CEK as an argument.
\<close>

lemma encryptPlaintext_composite_generated_cek:
  assumes "\<not> aead (auth (content_encryption this))"
      and "length iv0 = iv_length (content_encryption this)"
      and "truncated_length (auth (content_encryption this)) mod 8 = 0"
      and "exportKey crypto ''raw'' cek = Inr cek_bytes"
      and "length cek_bytes * 8 = alg_length (ce_id (content_encryption this))"
      and "0 < key_size (auth (content_encryption this))"
  shows "encryptPlaintext crypto u this iv0 (Inr cek) plain_text =
           ([ExportKey ''raw'' cek], Inl IncorrectCekLength)"
  using assms
  by (simp add: encryptPlaintext_def encryptPlaintext_composite_def rejected_def
        call_exportKey_def Let_def)

text \<open>
  C4. The AAD is the array of the bytes of the string \<open>jwe_protected_header\<close>, the encoded
  header, and of nothing else; the JSON text is read by the encoder only.
  \<^item> In AEAD mode, once the checks of its parameters have passed, \<open>encryptPlaintext\<close>
    invokes the cipher, once, with this AAD as \<open>additionalData\<close>.
  \<^item> In composite mode, once the checks have passed and the CEK is exported with the right
    length, the two keys are imported and the cipher has returned a ciphertext,
    \<open>encryptPlaintext\<close> invokes the MAC primitive on the buffer made of this AAD, the
    IV, the ciphertext and AL; the cipher of this mode gets no additional data.
  \<^item> In every call of \<open>JoseJWE.prototype.encrypt\<close>, every invocation of the cipher in
    AEAD mode carries this AAD and every buffer that is signed starts with it; when the
    call succeeds, the output starts with the same encoded header and a period, and the
    primitive of the mode was invoked with that AAD.
  \<^item> In every call of \<open>Encrypter.encrypt\<close> the cryptographer's \<open>encrypt\<close> is invoked
    with the bytes of the encoded header as its AAD, and a successful call returns a string
    that starts with this encoded header and a period.
\<close>

theorem aad_is_encoded_header:
  "(aead (auth (content_encryption this))
      \<and> length iv0 = iv_length (content_encryption this)
      \<and> tag_length (auth (content_encryption this)) mod 8 = 0
    \<longrightarrow> fst (encryptPlaintext crypto u this iv0 (Inr cek) plain_text) =
          [Encrypt \<lparr> enc_name = alg_name (ce_id (content_encryption this)), enc_iv = iv0,
                     additionalData = Some (arrayFromString u (jwe_protected_header_of u this)),
                     tagLength = Some (tag_length (auth (content_encryption this))) \<rparr>
             cek (arrayFromString u plain_text)])
   \<and> (\<not> aead (auth (content_encryption this))
      \<and> length iv0 = iv_length (content_encryption this)
      \<and> truncated_length (auth (content_encryption this)) mod 8 = 0
      \<and> exportKey crypto ''raw'' cek = Inr cek_bytes
      \<and> length cek_bytes * 8 =
            alg_length (ce_id (content_encryption this)) + key_size (auth (content_encryption this))
      \<and> importKey crypto ''raw''
            (take (key_size (auth (content_encryption this)) div 8) cek_bytes)
            (auth_id (auth (content_encryption this))) False [''sign''] = Inr mac_key
      \<and> importKey crypto ''raw''
            (drop (key_size (auth (content_encryption this)) div 8) cek_bytes)
            (ce_id (content_encryption this)) False [''encrypt''] = Inr enc_key
      \<and> subtle_encrypt crypto
            \<lparr> enc_name = alg_name (ce_id (content_encryption this)), enc_iv = iv0,
              additionalData = None, tagLength = None \<rparr>
            enc_key (arrayFromString u plain_text) = Inr ct
    \<longrightarrow> fst (encryptPlaintext crypto u this iv0 (Inr cek) plain_text) =
          [ExportKey ''raw'' cek,
           ImportKey ''raw'' (take (key_size (auth (content_encryption this)) div 8) cek_bytes)
             (auth_id (auth (content_encryption this))) False [''sign''],
           ImportKey ''raw'' (drop (key_size (auth (content_encryption this)) div 8) cek_bytes)
             (ce_id (content_encryption this)) False [''encrypt''],
           Encrypt \<lparr> enc_name = alg_name (ce_id (content_encryption this)), enc_iv = iv0,
                     additionalData = None, tagLength = None \<rparr>
             enc_key (arrayFromString u plain_text),
           Sign (auth_id (auth (content_encryption this))) mac_key
             (arrayFromString u (jwe_protected_header_of u this) @ iv0 @ ct
                @ al_bigendian u (arrayFromString u (jwe_protected_header_of u this)))])
   \<and> (\<forall>enc k d.
      Encrypt enc k d \<in> set (fst (JoseJWE_encrypt crypto u this iv0 key_promise plain_text))
      \<longrightarrow> additionalData enc =
            (if aead (auth (content_encryption this))
             then Some (arrayFromString u (jwe_protected_header_of u this)) else None))
   \<and> (\<forall>a k buf.
      Sign a k buf \<in> set (fst (JoseJWE_encrypt crypto u this iv0 key_promise plain_text))
      \<longrightarrow> \<not> aead (auth (content_encryption this))
          \<and> (\<exists>ct. buf = arrayFromString u (jwe_protected_header_of u this) @ iv0 @ ct
                        @ al_bigendian u (arrayFromString u (jwe_protected_header_of u this))))
   \<and> (\<forall>out.
      snd (JoseJWE_encrypt crypto u this iv0 key_promise plain_text) = Inr out
      \<longrightarrow> (\<exists>rest. out = jwe_protected_header_of u this @ ''.'' @ rest)
          \<and> (if aead (auth (content_encryption this))
              then \<exists>enc k d.
                     Encrypt enc k d
                       \<in> set (fst (JoseJWE_encrypt crypto u this iv0 key_promise plain_text))
                     \<and> additionalData enc
                         = Some (arrayFromString u (jwe_protected_header_of u this))
              else \<exists>a k ct.
                     Sign a k
                       (arrayFromString u (jwe_protected_header_of u this) @ iv0 @ ct
                          @ al_bigendian u (arrayFromString u (jwe_protected_header_of u this)))
                       \<in> set (fst (JoseJWE_encrypt crypto u this iv0 key_promise plain_text))))
   \<and> (\<forall>iv1 aad cekPromise d.
      CryptographerEncrypt iv1 aad cekPromise d
        \<in> set (fst (Encrypter_encrypt e u uint8Array presetCEK))
      \<longrightarrow> aad = arrayFromString u (encode u (JSON_stringify u (Encrypter_headers e))))
   \<and> (\<exists>cekPromise.
      CryptographerEncrypt (createIV (cryptographer e))
        (arrayFromString u (encode u (JSON_stringify u (Encrypter_headers e))))
        cekPromise uint8Array
        \<in> set (fst (Encrypter_encrypt e u uint8Array presetCEK)))
   \<and> (\<forall>out.
      snd (Encrypter_encrypt e u uint8Array presetCEK) = Inr out
      \<longrightarrow> (\<exists>rest. out = encode u (JSON_stringify u (Encrypter_headers e)) @ ''.'' @ rest))"
proof -
  let ?log = "fst (JoseJWE_encrypt crypto u this iv0 key_promise plain_text)"
  let ?cek = "generateKey crypto (ce_id (content_encryption this)) True [''encrypt'']"
  let ?aad = "arrayFromString u (jwe_protected_header_of u this)"
  have sub: "set (fst (encryptPlaintext crypto u this iv0 ?cek plain_text)) \<subseteq> set ?log"
    by (auto simp: JoseJWE_encrypt_log)
  have enc_in: "Encrypt enc k d \<in> set (fst (encryptPlaintext crypto u this iv0 ?cek plain_text))"
    if "Encrypt enc k d \<in> set ?log" for enc k d
    using that by (auto simp: JoseJWE_encrypt_log dest: JoseJWE_encryptCek_log)
  have sign_in: "Sign a k buf \<in> set (fst (encryptPlaintext crypto u this iv0 ?cek plain_text))"
    if "Sign a k buf \<in> set ?log" for a k buf
    using that by (auto simp: JoseJWE_encrypt_log dest: JoseJWE_encryptCek_log)
  have buf: "mac_buffer u ?aad iv0 ct = ?aad @ iv0 @ ct @ al_bigendian u ?aad" for ct
    by (simp add: mac_buffer_def arrayBufferConcat_def)
  have 1: "\<forall>enc k d. Encrypt enc k d \<in> set ?log
            \<longrightarrow> additionalData enc
                  = (if aead (auth (content_encryption this)) then Some ?aad else None)"
  proof (intro allI impI)
    fix enc k d
    assume "Encrypt enc k d \<in> set ?log"
    from encryptPlaintext_log_Encrypt [OF enc_in [OF this]]
    show "additionalData enc
            = (if aead (auth (content_encryption this)) then Some ?aad else None)" .
  qed
  have 2: "\<forall>a k buf. Sign a k buf \<in> set ?log
            \<longrightarrow> \<not> aead (auth (content_encryption this))
                \<and> (\<exists>ct. buf = ?aad @ iv0 @ ct @ al_bigendian u ?aad)"
  proof (intro allI impI)
    fix a k b
    assume "Sign a k b \<in> set ?log"
    from encryptPlaintext_log_Sign [OF sign_in [OF this]]
    show "\<not> aead (auth (content_encryption this))
            \<and> (\<exists>ct. b = ?aad @ iv0 @ ct @ al_bigendian u ?aad)"
      unfolding buf .
  qed
  have 3: "(\<exists>rest. out = jwe_protected_header_of u this @ ''.'' @ rest)
          \<and> (if aead (auth (content_encryption this))
              then \<exists>enc k d. Encrypt enc k d \<in> set ?log \<and> additionalData enc = Some ?aad
              else \<exists>a k ct. Sign a k (?aad @ iv0 @ ct @ al_bigendian u ?aad) \<in> set ?log)"
    if "snd (JoseJWE_encrypt crypto u this iv0 key_promise plain_text) = Inr out" for out
  proof -
    from JoseJWE_encrypt_Inr [OF that] obtain cek w r where
      c: "?cek = Inr cek"
      and r: "snd (encryptPlaintext crypto u this iv0 (Inr cek) plain_text) = Inr r"
      and out: "out = header r @ ''.'' @ encodeArrayBuffer u w @ ''.'' @
                 encodeArrayBuffer u (iv r) @ ''.'' @ encodeArrayBuffer u (cipher r) @ ''.'' @
                 encodeArrayBuffer u (tag r)"
      by blast
    from r have "header r = jwe_protected_header_of u this"
      by (simp add: encryptPlaintext_Inr_header_iv)
    with out have "\<exists>rest. out = jwe_protected_header_of u this @ ''.'' @ rest" by simp
    moreover from encryptPlaintext_Inr_invokes [OF r] sub
    have "if aead (auth (content_encryption this))
              then \<exists>enc k d. Encrypt enc k d \<in> set ?log \<and> additionalData enc = Some ?aad
              else \<exists>a k ct. Sign a k (?aad @ iv0 @ ct @ al_bigendian u ?aad) \<in> set ?log"
      unfolding c buf by (auto split: if_splits)
    ultimately show ?thesis by blast
  qed
  from Encrypter_encrypt_log [of e u uint8Array presetCEK]
  obtain before cekPromise after where
    l: "fst (Encrypter_encrypt e u uint8Array presetCEK) =
          before
          @ [CreateIV,
             CryptographerEncrypt (createIV (cryptographer e))
               (arrayFromString u (encode u (JSON_stringify u (Encrypter_headers e))))
               cekPromise uint8Array]
          @ after"
    and b: "set before \<subseteq> {CreateCek}"
    and a: "\<forall>c \<in> set after. \<exists>cek key. c = WrapCek cek key"
    by blast
  have 4: "\<forall>iv1 aad cekPromise d.
      CryptographerEncrypt iv1 aad cekPromise d
        \<in> set (fst (Encrypter_encrypt e u uint8Array presetCEK))
      \<longrightarrow> aad = arrayFromString u (encode u (JSON_stringify u (Encrypter_headers e)))"
    using a b unfolding l by auto
  have 5: "\<exists>cekPromise.
      CryptographerEncrypt (createIV (cryptographer e))
        (arrayFromString u (encode u (JSON_stringify u (Encrypter_headers e))))
        cekPromise uint8Array
        \<in> set (fst (Encrypter_encrypt e u uint8Array presetCEK))"
    unfolding l by auto
  have 6: "\<forall>out.
      snd (Encrypter_encrypt e u uint8Array presetCEK) = Inr out
      \<longrightarrow> (\<exists>rest. out = encode u (JSON_stringify u (Encrypter_headers e)) @ ''.'' @ rest)"
    by (auto dest!: Encrypter_encrypt_Inr)
  have 7: "aead (auth (content_encryption this))
      \<and> length iv0 = iv_length (content_encryption this)
      \<and> tag_length (auth (content_encryption this)) mod 8 = 0
    \<longrightarrow> fst (encryptPlaintext crypto u this iv0 (Inr cek) plain_text) =
          [Encrypt \<lparr> enc_name = alg_name (ce_id (content_encryption this)), enc_iv = iv0,
                     additionalData = Some ?aad,
                     tagLength = Some (tag_length (auth (content_encryption this))) \<rparr>
             cek (arrayFromString u plain_text)]"
    by (simp add: encryptPlaintext_def Let_def encryptPlaintext_aead_log)
  have 8: "\<not> aead (auth (content_encryption this))
      \<and> length iv0 = iv_length (content_encryption this)
      \<and> truncated_length (auth (content_encryption this)) mod 8 = 0
      \<and> exportKey crypto ''raw'' cek = Inr cek_bytes
      \<and> length cek_bytes * 8 =
            alg_length (ce_id (content_encryption this)) + key_size (auth (content_encryption this))
      \<and> importKey crypto ''raw''
            (take (key_size (auth (content_encryption this)) div 8) cek_bytes)
            (auth_id (auth (content_encryption this))) False [''sign''] = Inr mac_key
      \<and> importKey crypto ''raw''
            (drop (key_size (auth (content_encryption this)) div 8) cek_bytes)
            (ce_id (content_encryption this)) False [''encrypt''] = Inr enc_key
      \<and> subtle_encrypt crypto
            \<lparr> enc_name = alg_name (ce_id (content_encryption this)), enc_iv = iv0,
              additionalData = None, tagLength = None \<rparr>
            enc_key (arrayFromString u plain_text) = Inr ct
    \<longrightarrow> fst (encryptPlaintext crypto u this iv0 (Inr cek) plain_text) =
          [ExportKey ''raw'' cek,
           ImportKey ''raw'' (take (key_size (auth (content_encryption this)) div 8) cek_bytes)
             (auth_id (auth (content_encryption this))) False [''sign''],
           ImportKey ''raw'' (drop (key_size (auth (content_encryption this)) div 8) cek_bytes)
             (ce_id (content_encryption this)) False [''encrypt''],
           Encrypt \<lparr> enc_name = alg_name (ce_id (content_encryption this)), enc_iv = iv0,
                     additionalData = None, tagLength = None \<rparr>
             enc_key (arrayFromString u plain_text),
           Sign (auth_id (auth (content_encryption this))) mac_key
             (?aad @ iv0 @ ct @ al_bigendian u ?aad)]"
    by (simp add: encryptPlaintext_def encryptPlaintext_composite_def rejected_def
          call_exportKey_def call_importKey_def call_encrypt_def call_sign_def
          slice_prefix slice_from_suffix Let_def buf)
  from 7 8 1 2 3 4 5 6 show ?thesis by blast
qed

text \<open>
  "hello" under A128GCM and A128KW through \<open>encrypt\<close>: the encoded header is the first
  segment of the output and its bytes are the additional data of the cipher. "hello" under
  A128CBC-HS256 with a CEK of 32 bytes: the buffer that is signed starts with the bytes of
  the encoded header. With the class, a header \<open>kid\<close> added by the caller is part of the
  encoded header, whose bytes are the AAD.
\<close>

theorem aad_is_encoded_header_witness:
  "(\<exists>rest. snd (JoseJWE_encrypt example_subtle example_utils example_gcm (replicate 12 9)
                 (Inr (replicate 16 5)) ''hello'')
            = Inr (''616c673d413132384b573b656e633d4131323847434d3b'' @ ''.'' @ rest))
   \<and> Encrypt \<lparr> enc_name = ''AES-GCM'', enc_iv = replicate 12 9,
                additionalData =
                  Some (char_codes ''616c673d413132384b573b656e633d4131323847434d3b''),
                tagLength = Some 128 \<rparr>
        (replicate 16 7) (char_codes ''hello'')
       \<in> set (fst (JoseJWE_encrypt example_subtle example_utils example_gcm (replicate 12 9)
                     (Inr (replicate 16 5)) ''hello''))
   \<and> jwe_protected_header_of example_utils example_cbc
       = ''616c673d413132384b573b656e633d413132384342432d48533235363b''
   \<and> drop 4 (fst (encryptPlaintext example_subtle example_utils example_cbc (replicate 16 9)
                    (Inr (replicate 16 1 @ replicate 16 2)) ''hello''))
       = [Sign \<lparr> alg_name = ''HMAC'', alg_length = 256 \<rparr> (replicate 16 1)
            (char_codes (jwe_protected_header_of example_utils example_cbc) @ replicate 16 9
               @ [107, 104, 111, 111, 114]
               @ al_bigendian example_utils
                   (char_codes (jwe_protected_header_of example_utils example_cbc)))]
   \<and> (\<exists>cekPromise.
        CryptographerEncrypt (replicate 12 9)
          (char_codes ''6b69643d6b313b616c673d413132384b573b656e633d4131323847434d3b'')
          cekPromise (char_codes ''hello'')
        \<in> set (fst (Encrypter_encrypt
                      (addHeader (Encrypter (example_cryptographer ''A128KW'') (Inr [1, 2, 3]))
                         ''kid'' ''k1'')
                      example_utils (char_codes ''hello'') None)))"
proof -
  let ?e = "addHeader (Encrypter (example_cryptographer ''A128KW'') (Inr [1, 2, 3]))
              ''kid'' ''k1'' :: bytes encrypter"
  note inst = aad_is_encoded_header [where crypto = example_subtle and u = example_utils
               and this = example_gcm and ?iv0.0 = "replicate 12 9"
               and key_promise = "Inr (replicate 16 5)" and plain_text = "''hello''"
               and e = ?e and uint8Array = "char_codes ''hello''" and presetCEK = None]
  note inst_cbc = aad_is_encoded_header [where crypto = example_subtle and u = example_utils
               and this = example_cbc and ?iv0.0 = "replicate 16 9"
               and cek = "replicate 16 1 @ replicate 16 2"
               and cek_bytes = "replicate 16 1 @ replicate 16 2"
               and mac_key = "replicate 16 1" and enc_key = "replicate 16 2"
               and ct = "[107, 104, 111, 111, 114]" and plain_text = "''hello''",
               THEN conjunct2, THEN conjunct1]
  have h: "jwe_protected_header_of example_utils example_gcm
             = ''616c673d413132384b573b656e633d4131323847434d3b''"
    by (simp add: jwe_protected_header_of_def example_utils_def example_gcm_def hex_def
          hex_digit_def char_codes_def)
  have hc: "jwe_protected_header_of example_utils example_cbc
             = ''616c673d413132384b573b656e633d413132384342432d48533235363b''"
    by (simp add: jwe_protected_header_of_def example_utils_def example_cbc_def hex_def
          hex_digit_def char_codes_def)
  have h': "encode example_utils (JSON_stringify example_utils (Encrypter_headers ?e))
             = ''6b69643d6b313b616c673d413132384b573b656e633d4131323847434d3b''"
    by (simp add: Encrypter_headers_def addHeader_def Encrypter_def example_cryptographer_def
          example_utils_def hex_def hex_digit_def char_codes_def)
  have iv': "createIV (cryptographer ?e) = replicate 12 9"
    by (simp add: addHeader_def Encrypter_def example_cryptographer_def)
  have a: "arrayFromString example_utils = char_codes"
    by (simp add: example_utils_def)
  have run: "JoseJWE_encrypt example_subtle example_utils example_gcm (replicate 12 9)
               (Inr (replicate 16 5)) ''hello''
     = ([GenerateKey \<lparr> alg_name = ''AES-GCM'', alg_length = 128 \<rparr> True [''encrypt''],
         WrapKey ''raw'' (replicate 16 7) (replicate 16 5)
           \<lparr> alg_name = ''AES-KW'', alg_length = 128 \<rparr>,
         Encrypt \<lparr> enc_name = ''AES-GCM'', enc_iv = replicate 12 9,
                   additionalData =
                     Some (char_codes (jwe_protected_header_of example_utils example_gcm)),
                   tagLength = Some 128 \<rparr>
           (replicate 16 7) (char_codes ''hello'')],
        Inr (jwe_protected_header_of example_utils example_gcm @ ''.'' @
             hex (replicate 16 8) @ ''.'' @ hex (replicate 12 9) @ ''.'' @
             hex (map (\<lambda>b. b + 3) (char_codes ''hello'')) @ ''.'' @ hex (replicate 16 170)))"
    by (simp add: JoseJWE_encrypt_def JoseJWE_createCEK_def JoseJWE_encryptCek_def
          call_generateKey_def call_wrapKey_def encryptPlaintext_def encryptPlaintext_aead_def
          and_then_def call_encrypt_def resolved_def Let_def slice_from_def slice_buffer_def
          relative_index_def example_gcm_def example_subtle_def a
          arg_cong [OF example_utils_def, of encodeArrayBuffer])
  from inst run have "\<exists>rest. jwe_protected_header_of example_utils example_gcm @ ''.'' @
             hex (replicate 16 8) @ ''.'' @ hex (replicate 12 9) @ ''.'' @
             hex (map (\<lambda>b. b + 3) (char_codes ''hello'')) @ ''.'' @ hex (replicate 16 170)
           = jwe_protected_header_of example_utils example_gcm @ ''.'' @ rest"
    by simp
  then have 1: "\<exists>rest. snd (JoseJWE_encrypt example_subtle example_utils example_gcm
                   (replicate 12 9) (Inr (replicate 16 5)) ''hello'')
            = Inr (''616c673d413132384b573b656e633d4131323847434d3b'' @ ''.'' @ rest)"
    unfolding run h by simp
  have pre: "\<not> aead (auth (content_encryption example_cbc))
      \<and> length (replicate 16 (9::byte)) = iv_length (content_encryption example_cbc)
      \<and> truncated_length (auth (content_encryption example_cbc)) mod 8 = 0
      \<and> exportKey example_subtle ''raw'' (replicate 16 1 @ replicate 16 2)
          = Inr (replicate 16 1 @ replicate 16 2)
      \<and> length (replicate 16 (1::byte) @ replicate 16 2) * 8 =
            alg_length (ce_id (content_encryption example_cbc))
            + key_size (auth (content_encryption example_cbc))
      \<and> importKey example_subtle ''raw''
            (take (key_size (auth (content_encryption example_cbc)) div 8)
               (replicate 16 1 @ replicate 16 2))
            (auth_id (auth (content_encryption example_cbc))) False [''sign'']
          = Inr (replicate 16 1)
      \<and> importKey example_subtle ''raw''
            (drop (key_size (auth (content_encryption example_cbc)) div 8)
               (replicate 16 1 @ replicate 16 2))
            (ce_id (content_encryption example_cbc)) False [''encrypt'']
          = Inr (replicate 16 2)
      \<and> subtle_encrypt example_subtle
            \<lparr> enc_name = alg_name (ce_id (content_encryption example_cbc)),
              enc_iv = replicate 16 9, additionalData = None, tagLength = None \<rparr>
            (replicate 16 2) (arrayFromString example_utils ''hello'')
          = Inr [107, 104, 111, 111, 114]"
    by (simp add: example_cbc_def example_subtle_def a char_codes_def)
  from inst_cbc [rule_format, OF pre]
  have 2: "drop 4 (fst (encryptPlaintext example_subtle example_utils example_cbc
                    (replicate 16 9) (Inr (replicate 16 1 @ replicate 16 2)) ''hello''))
       = [Sign \<lparr> alg_name = ''HMAC'', alg_length = 256 \<rparr> (replicate 16 1)
            (char_codes (jwe_protected_header_of example_utils example_cbc) @ replicate 16 9
               @ [107, 104, 111, 111, 114]
               @ al_bigendian example_utils
                   (char_codes (jwe_protected_header_of example_utils example_cbc)))]"
    by (simp add: a) (simp add: example_cbc_def)
  from inst have 3: "\<exists>cekPromise.
        CryptographerEncrypt (replicate 12 9)
          (char_codes ''6b69643d6b313b616c673d413132384b573b656e633d4131323847434d3b'')
          cekPromise (char_codes ''hello'')
        \<in> set (fst (Encrypter_encrypt ?e example_utils (char_codes ''hello'') None))"
    unfolding h' iv' a by blast
  from 1 2 3 hc show ?thesis unfolding run h by simp
qed

lemma hex_digit_not_period: "n < 16 \<Longrightarrow> hex_digit n \<noteq> CHR ''.''"
proof -
  assume "n < 16"
  then have "hex_digit n \<in> set ''0123456789abcdef''"
    unfolding hex_digit_def by (intro nth_mem) simp
  then show ?thesis by auto
qed

lemma hex_no_period: "CHR ''.'' \<notin> set (hex bs)"
proof -
  have "unat b < 256" for b :: byte
    using unsigned_less [of b] by simp
  then have hi: "hex_digit (unat b div 16) \<noteq> CHR ''.''" for b :: byte
    by (intro hex_digit_not_period) (simp add: less_mult_imp_div_less)
  have lo: "hex_digit (unat b mod 16) \<noteq> CHR ''.''" for b :: byte
    by (intro hex_digit_not_period) simp
  show ?thesis
    using hi lo by (auto simp: hex_def) metis+
qed

section \<open>C9: the compact serialization\<close>

text \<open>
  C9. Whenever \<open>Encrypter.encrypt\<close> or \<open>JoseJWE.prototype.encrypt\<close> succeeds, the
  string it returns is, in this order, the encoded header, the encoding of the wrapped key
  (of the empty byte sequence under \<open>dir\<close>), the encoding of the IV that \<open>createIV\<close>
  returned, the encoding of the ciphertext and the encoding of the tag, joined by periods.
  The encoders are outside the program; when what they return contains no period, as
  base64url does, the string has exactly four periods, hence five segments.
\<close>

theorem compact_serialization:
  "(\<forall>out. snd (Encrypter_encrypt e u uint8Array presetCEK) = Inr out \<longrightarrow>
      (\<exists>w cekPromise r.
         cryptographer_encrypt (cryptographer e) (createIV (cryptographer e))
           (arrayFromString u (encode u (JSON_stringify u (Encrypter_headers e))))
           cekPromise uint8Array = Inr r
       \<and> (if getKeyEncryptionAlgorithm (cryptographer e) = ''dir''
           then w = [] \<and> cekPromise = keyPromise e
           else \<exists>key cek. keyPromise e = Inr key \<and> cekPromise = Inr cek
                  \<and> wrapCek (cryptographer e) cek key = Inr w)
       \<and> out = encode u (JSON_stringify u (Encrypter_headers e)) @ ''.'' @
               encodeArray u w @ ''.'' @
               encodeArray u (createIV (cryptographer e)) @ ''.'' @
               encodeArray u (cipher r) @ ''.'' @
               encodeArray u (tag r)))
   \<and> (\<forall>out. snd (JoseJWE_encrypt crypto u this iv0 key_promise plain_text) = Inr out \<longrightarrow>
      (\<exists>key cek w r.
         key_promise = Inr key
       \<and> generateKey crypto (ce_id (content_encryption this)) True [''encrypt''] = Inr cek
       \<and> wrapKey crypto ''raw'' cek key (ke_id (key_encryption this)) = Inr w
       \<and> snd (encryptPlaintext crypto u this iv0 (Inr cek) plain_text) = Inr r
       \<and> out = jwe_protected_header_of u this @ ''.'' @
               encodeArrayBuffer u w @ ''.'' @
               encodeArrayBuffer u iv0 @ ''.'' @
               encodeArrayBuffer u (cipher r) @ ''.'' @
               encodeArrayBuffer u (tag r)))
   \<and> ((\<forall>s. CHR ''.'' \<notin> set (encode u s)) \<and> (\<forall>b. CHR ''.'' \<notin> set (encodeArray u b)) \<longrightarrow>
       (\<forall>out. snd (Encrypter_encrypt e u uint8Array presetCEK) = Inr out \<longrightarrow>
          count_list out CHR ''.'' = 4))
   \<and> ((\<forall>s. CHR ''.'' \<notin> set (encode u s)) \<and> (\<forall>b. CHR ''.'' \<notin> set (encodeArrayBuffer u b)) \<longrightarrow>
       (\<forall>out. snd (JoseJWE_encrypt crypto u this iv0 key_promise plain_text) = Inr out \<longrightarrow>
          count_list out CHR ''.'' = 4))"
proof -
  have 1: "\<exists>w cekPromise r.
         cryptographer_encrypt (cryptographer e) (createIV (cryptographer e))
           (arrayFromString u (encode u (JSON_stringify u (Encrypter_headers e))))
           cekPromise uint8Array = Inr r
       \<and> (if getKeyEncryptionAlgorithm (cryptographer e) = ''dir''
           then w = [] \<and> cekPromise = keyPromise e
           else \<exists>key cek. keyPromise e = Inr key \<and> cekPromise = Inr cek
                  \<and> wrapCek (cryptographer e) cek key = Inr w)
       \<and> out = encode u (JSON_stringify u (Encrypter_headers e)) @ ''.'' @
               encodeArray u w @ ''.'' @
               encodeArray u (createIV (cryptographer e)) @ ''.'' @
               encodeArray u (cipher r) @ ''.'' @
               encodeArray u (tag r)"
    if "snd (Encrypter_encrypt e u uint8Array presetCEK) = Inr out" for out
  proof -
    from Encrypter_encrypt_Inr [OF that] obtain w cekPromise r where
      f: "cryptographer_encrypt (cryptographer e) (createIV (cryptographer e))
           (arrayFromString u (encode u (JSON_stringify u (Encrypter_headers e))))
           cekPromise uint8Array = Inr r"
      "if getKeyEncryptionAlgorithm (cryptographer e) = ''dir''
           then w = [] \<and> cekPromise = keyPromise e
           else \<exists>key cek. keyPromise e = Inr key \<and> cekPromise = Inr cek
                    \<and> cekPromise = (case presetCEK of
                                       None \<Rightarrow> createCek (cryptographer e)
                                     | Some p \<Rightarrow> p)
                  \<and> wrapCek (cryptographer e) cek key = Inr w"
      "out = encode u (JSON_stringify u (Encrypter_headers e)) @ ''.'' @
               encodeArray u w @ ''.'' @
               encodeArray u (createIV (cryptographer e)) @ ''.'' @
               encodeArray u (cipher r) @ ''.'' @
               encodeArray u (tag r)"
      by blast
    from f(2) have
      "if getKeyEncryptionAlgorithm (cryptographer e) = ''dir''
           then w = [] \<and> cekPromise = keyPromise e
           else \<exists>key cek. keyPromise e = Inr key \<and> cekPromise = Inr cek
                  \<and> wrapCek (cryptographer e) cek key = Inr w"
      by (auto split: if_splits)
    with f(1,3) show ?thesis by blast
  qed
  have 2: "\<exists>key cek w r.
         key_promise = Inr key
       \<and> generateKey crypto (ce_id (content_encryption this)) True [''encrypt''] = Inr cek
       \<and> wrapKey crypto ''raw'' cek key (ke_id (key_encryption this)) = Inr w
       \<and> snd (encryptPlaintext crypto u this iv0 (Inr cek) plain_text) = Inr r
       \<and> out = jwe_protected_header_of u this @ ''.'' @
               encodeArrayBuffer u w @ ''.'' @
               encodeArrayBuffer u iv0 @ ''.'' @
               encodeArrayBuffer u (cipher r) @ ''.'' @
               encodeArrayBuffer u (tag r)"
    if "snd (JoseJWE_encrypt crypto u this iv0 key_promise plain_text) = Inr out" for out
  proof -
    from JoseJWE_encrypt_Inr [OF that] obtain key cek w r where
      f: "key_promise = Inr key"
         "generateKey crypto (ce_id (content_encryption this)) True [''encrypt''] = Inr cek"
         "wrapKey crypto ''raw'' cek key (ke_id (key_encryption this)) = Inr w"
         "snd (encryptPlaintext crypto u this iv0 (Inr cek) plain_text) = Inr r"
         "out = header r @ ''.'' @ encodeArrayBuffer u w @ ''.'' @
                encodeArrayBuffer u (iv r) @ ''.'' @
                encodeArrayBuffer u (cipher r) @ ''.'' @
                encodeArrayBuffer u (tag r)"
      by blast
    from encryptPlaintext_Inr_header_iv [OF f(4)]
    have "header r = jwe_protected_header_of u this" "iv r = iv0" by simp_all
    with f show ?thesis by auto
  qed
  have 3: "count_list out CHR ''.'' = 4"
    if "\<forall>s. CHR ''.'' \<notin> set (encode u s)" "\<forall>b. CHR ''.'' \<notin> set (encodeArray u b)"
       "snd (Encrypter_encrypt e u uint8Array presetCEK) = Inr out" for out
    using 1 [OF that(3)] that(1,2) by (auto simp: count_list_0_iff)
  have 4: "count_list out CHR ''.'' = 4"
    if "\<forall>s. CHR ''.'' \<notin> set (encode u s)" "\<forall>b. CHR ''.'' \<notin> set (encodeArrayBuffer u b)"
       "snd (JoseJWE_encrypt crypto u this iv0 key_promise plain_text) = Inr out" for out
    using 2 [OF that(3)] that(1,2)
    by (auto simp: count_list_0_iff jwe_protected_header_of_def)
  from 1 2 3 4 show ?thesis by blast
qed

text \<open>
  "hello" under A128GCM and A128KW, with both encrypters: header, wrapped key, IV,
  ciphertext and tag, and four periods.
\<close>

theorem compact_serialization_witness:
  "snd (JoseJWE_encrypt example_subtle example_utils example_gcm (replicate 12 9)
          (Inr (replicate 16 5)) ''hello'')
     = Inr (''616c673d413132384b573b656e633d4131323847434d3b'' @ ''.'' @
            hex (replicate 16 8) @ ''.'' @ hex (replicate 12 9) @ ''.'' @
            ''6b686f6f72'' @ ''.'' @ hex (replicate 16 170))
   \<and> count_list
        (''616c673d413132384b573b656e633d4131323847434d3b'' @ ''.'' @
         hex (replicate 16 8) @ ''.'' @ hex (replicate 12 9) @ ''.'' @
         ''6b686f6f72'' @ ''.'' @ hex (replicate 16 170)) CHR ''.'' = 4
   \<and> snd (Encrypter_encrypt (Encrypter (example_cryptographer ''A128KW'') (Inr [1, 2, 3]))
          example_utils (char_codes ''hello'') None)
     = Inr (''616c673d413132384b573b656e633d4131323847434d3b'' @ ''.'' @
            hex (replicate 16 8) @ ''.'' @ hex (replicate 12 9) @ ''.'' @
            ''6b686f6f72'' @ ''.'' @ hex (replicate 16 170))"
proof -
  let ?e = "Encrypter (example_cryptographer ''A128KW'') (Inr [1, 2, 3]) :: bytes encrypter"
  let ?out = "''616c673d413132384b573b656e633d4131323847434d3b'' @ ''.'' @
            hex (replicate 16 8) @ ''.'' @ hex (replicate 12 9) @ ''.'' @
            ''6b686f6f72'' @ ''.'' @ hex (replicate 16 170)"
  note inst = compact_serialization [of ?e example_utils "char_codes ''hello''" None
                example_subtle example_gcm "replicate 12 9" "Inr (replicate 16 5)" "''hello''"]
  have h: "jwe_protected_header_of example_utils example_gcm
             = ''616c673d413132384b573b656e633d4131323847434d3b''"
    by (simp add: jwe_protected_header_of_def example_utils_def example_gcm_def hex_def
          hex_digit_def char_codes_def)
  have c: "hex (map (\<lambda>b. b + 3) (char_codes ''hello'')) = ''6b686f6f72''"
    by (simp add: hex_def hex_digit_def char_codes_def)
  have a: "arrayFromString example_utils = char_codes"
    by (simp add: example_utils_def)
  have np: "\<forall>s. CHR ''.'' \<notin> set (encode example_utils s)"
    "\<forall>b. CHR ''.'' \<notin> set (encodeArrayBuffer example_utils b)"
    by (simp_all add: example_utils_def hex_no_period)
  have run: "snd (JoseJWE_encrypt example_subtle example_utils example_gcm (replicate 12 9)
               (Inr (replicate 16 5)) ''hello'')
     = Inr (jwe_protected_header_of example_utils example_gcm @ ''.'' @
             hex (replicate 16 8) @ ''.'' @ hex (replicate 12 9) @ ''.'' @
             hex (map (\<lambda>b. b + 3) (char_codes ''hello'')) @ ''.'' @ hex (replicate 16 170))"
    by (simp add: JoseJWE_encrypt_def JoseJWE_createCEK_def JoseJWE_encryptCek_def
          call_generateKey_def call_wrapKey_def encryptPlaintext_def encryptPlaintext_aead_def
          and_then_def call_encrypt_def resolved_def Let_def slice_from_def slice_buffer_def
          relative_index_def example_gcm_def example_subtle_def a
          arg_cong [OF example_utils_def, of encodeArrayBuffer])
  then have 1: "snd (JoseJWE_encrypt example_subtle example_utils example_gcm (replicate 12 9)
               (Inr (replicate 16 5)) ''hello'') = Inr ?out"
    unfolding h c .
  from inst np 1 have 2: "count_list ?out CHR ''.'' = 4"
    by blast
  have 3: "snd (Encrypter_encrypt ?e example_utils (char_codes ''hello'') None) = Inr ?out"
    by (simp add: Encrypter_encrypt_def Encrypter_encrypt_encryptPlainText_def
          Encrypter_headers_def Encrypter_def example_cryptographer_def Let_def
          example_utils_def char_codes_def)
       (simp add: hex_def hex_digit_def)
  from 1 2 3 show ?thesis by blast
qed

end
